theory Spec2Isabelle
  imports Main "HOL-Library.AList" "HOL-Library.Log_Nat" "HOL-Library.Code_Target_Numeral"
begin

section \<open>Strings\<close>

text \<open>
  JavaScript strings are modelled as \<^typ>\<open>string\<close> (a list of 8-bit characters).
  \<open>String.prototype.toLowerCase\<close> is modelled on the ASCII letters, which it maps
  one character at a time; every keyword of the classifier is lower-case ASCII.
  Characters outside ASCII are left as they are.
\<close>

definition toLowerChar :: "char \<Rightarrow> char" where
  "toLowerChar c =
     (case map_of (zip ''ABCDEFGHIJKLMNOPQRSTUVWXYZ'' ''abcdefghijklmnopqrstuvwxyz'') c of
        Some l \<Rightarrow> l
      | None \<Rightarrow> c)"

definition toLowerCase :: "string \<Rightarrow> string" where
  "toLowerCase s = map toLowerChar s"

text \<open>\<open>s.startsWith(k)\<close>: \<open>k\<close> is an initial segment of \<open>s\<close>.\<close>

fun startsWith :: "string \<Rightarrow> string \<Rightarrow> bool" where
  "startsWith s [] = True"
| "startsWith [] (k # ks) = False"
| "startsWith (c # cs) (k # ks) = (c = k \<and> startsWith cs ks)"

text \<open>\<open>s.includes(k)\<close>: \<open>k\<close> starts at some position of \<open>s\<close>.\<close>

fun includes_str :: "string \<Rightarrow> string \<Rightarrow> bool" where
  "includes_str [] k = startsWith [] k"
| "includes_str (c # cs) k = (startsWith (c # cs) k \<or> includes_str cs k)"

section \<open>Lexical risk classifier (student-dashboard.tsx, assessRiskBasedOnKeywords)\<close>

definition crisisKeywords :: "string list" where
  "crisisKeywords = [''suicide'', ''kill myself'', ''end it all'', ''die'', ''harm myself'']"

definition highRiskKeywords :: "string list" where
  "highRiskKeywords =
     [''hopeless'', ''worthless'', ''desperate'', ''can'' @ [CHR 0x27] @ ''t cope'', ''overwhelming'']"

definition moderateRiskKeywords :: "string list" where
  "moderateRiskKeywords = [''sad'', ''anxious'', ''worried'', ''stressed'', ''depressed'']"

text \<open>
  \<open>keywords.some(keyword => lowerMessage.includes(keyword))\<close> is \<^const>\<open>list_ex\<close>
  over the keyword list. The function returns the tier's name, as the source does.
\<close>

definition assessRiskBasedOnKeywords :: "string \<Rightarrow> string" where
  "assessRiskBasedOnKeywords message =
     (let lowerMessage = toLowerCase message in
      if list_ex (\<lambda>keyword. includes_str lowerMessage keyword) crisisKeywords then ''crisis''
      else if list_ex (\<lambda>keyword. includes_str lowerMessage keyword) highRiskKeywords then ''high''
      else if list_ex (\<lambda>keyword. includes_str lowerMessage keyword) moderateRiskKeywords
        then ''moderate''
      else ''low'')"

section \<open>Numbers and dates of the platform\<close>

text \<open>\<open>String(n)\<close> for an integer: its decimal digits, with a minus sign below zero.\<close>

definition digitChar :: "nat \<Rightarrow> char" where
  "digitChar d = ''0123456789'' ! (d mod 10)"

fun natToString :: "nat \<Rightarrow> string" where
  "natToString n =
     (if n < 10 then [digitChar n] else natToString (n div 10) @ [digitChar (n mod 10)])"

declare natToString.simps [simp del]

definition intToString :: "int \<Rightarrow> string" where
  "intToString i = (if i < 0 then ''-'' @ natToString (nat (- i)) else natToString (nat i))"

definition padStart :: "nat \<Rightarrow> string \<Rightarrow> string" where
  "padStart w s = replicate (w - length s) (CHR ''0'') @ s"

text \<open>
  A time value is the number of milliseconds since the epoch, as \<open>Date.now()\<close> returns
  it. \<open>toISOString\<close> prints the UTC calendar date and time of day of a time value as
  \<open>YYYY-MM-DDTHH:mm:ss.sssZ\<close> (years outside 0..9999 with a sign and six digits); the
  calendar date of a day number is computed in the proleptic Gregorian calendar.
  Time values within a day of the end of the range of \<open>Date\<close> (year 275760), where
  \<open>toISOString\<close> raises, are outside the model.
\<close>

definition msPerDay :: int where
  "msPerDay = 24 * 60 * 60 * 1000"

definition utcDay :: "int \<Rightarrow> int" where
  "utcDay t = t div msPerDay"

definition civilFromDays :: "int \<Rightarrow> int \<times> int \<times> int" where
  "civilFromDays d =
     (let z = d + 719468;
          era = z div 146097;
          doe = z mod 146097;
          yoe = (doe - doe div 1460 + doe div 36524 - doe div 146096) div 365;
          y = yoe + era * 400;
          doy = doe - (365 * yoe + yoe div 4 - yoe div 100);
          mp = (5 * doy + 2) div 153;
          dd = doy - (153 * mp + 2) div 5 + 1;
          mm = (if mp < 10 then mp + 3 else mp - 9)
      in (if mm \<le> 2 then y + 1 else y, mm, dd))"

definition isoYear :: "int \<Rightarrow> string" where
  "isoYear y =
     (if 0 \<le> y \<and> y \<le> 9999 then padStart 4 (natToString (nat y))
      else (if y < 0 then ''-'' else ''+'') @ padStart 6 (natToString (nat \<bar>y\<bar>)))"

definition isoDate :: "int \<Rightarrow> string" where
  "isoDate d =
     (case civilFromDays d of
        (y, mm, dd) \<Rightarrow>
          isoYear y @ ''-'' @ padStart 2 (natToString (nat mm)) @ ''-''
            @ padStart 2 (natToString (nat dd)))"

definition isoTime :: "int \<Rightarrow> string" where
  "isoTime t =
     (let ms = nat (t mod msPerDay) in
      padStart 2 (natToString (ms div 3600000)) @ '':''
        @ padStart 2 (natToString (ms div 60000 mod 60)) @ '':''
        @ padStart 2 (natToString (ms div 1000 mod 60)) @ ''.''
        @ padStart 3 (natToString (ms mod 1000)))"

definition toISOString :: "int \<Rightarrow> string" where
  "toISOString t = isoDate (utcDay t) @ ''T'' @ isoTime t @ ''Z''"

text \<open>\<open>s.split('T')[0]\<close>: the part of \<open>s\<close> before its first \<open>T\<close>.\<close>

definition splitT0 :: "string \<Rightarrow> string" where
  "splitT0 s = takeWhile (\<lambda>c. c \<noteq> CHR ''T'') s"

text \<open>\<open>new Date(t).toISOString().split('T')[0]\<close>\<close>

definition dateOf :: "int \<Rightarrow> string" where
  "dateOf t = splitT0 (toISOString t)"

subsection \<open>Double-precision arithmetic of the crisis rate\<close>

text \<open>
  A JavaScript number is an IEEE 754 binary64 value. The positive values met here are
  normal numbers, written \<open>(m, e)\<close> for \<open>m * 2 ^ e\<close> with \<open>2 ^ 52 \<le> m < 2 ^ 53\<close>; zero is
  \<open>(0, 0)\<close>. \<open>roundToDouble p q\<close> is the binary64 value nearest to the quotient \<open>p / q\<close>
  (\<open>q > 0\<close>), ties to the even significand: the result of \<open>p / q\<close> on two integers below
  \<open>2 ^ 53\<close>, which are binary64 values themselves.
\<close>

type_synonym double = "nat \<times> int"

definition scaleQuotient :: "nat \<Rightarrow> nat \<Rightarrow> int \<Rightarrow> nat \<times> nat" where
  "scaleQuotient p q e = (if e < 0 then (p * 2 ^ nat (- e), q) else (p, q * 2 ^ nat e))"

definition roundToDouble :: "nat \<Rightarrow> nat \<Rightarrow> double" where
  "roundToDouble p q =
     (if p = 0 then (0, 0)
      else
        let e0 = int (floorlog 2 p) - int (floorlog 2 q) - 53;
            e = (if 2 ^ 53 \<le> fst (scaleQuotient p q e0) div snd (scaleQuotient p q e0)
                 then e0 + 1 else e0);
            num = fst (scaleQuotient p q e);
            den = snd (scaleQuotient p q e);
            m0 = num div den;
            r = num mod den;
            m = (if den < 2 * r \<or> (2 * r = den \<and> odd m0) then m0 + 1 else m0)
        in if m = 2 ^ 53 then (2 ^ 52, e + 1) else (m, e))"

text \<open>\<open>x / y\<close> on two non-negative integers and \<open>x * k\<close> on a double and an integer.\<close>

definition divDouble :: "nat \<Rightarrow> nat \<Rightarrow> double" where
  "divDouble x y = roundToDouble x y"

definition mulDouble :: "double \<Rightarrow> nat \<Rightarrow> double" where
  "mulDouble x k =
     (case x of
        (m, e) \<Rightarrow> if e < 0 then roundToDouble (m * k) (2 ^ nat (- e))
                  else roundToDouble (m * k * 2 ^ nat e) 1)"

text \<open>
  An integer as a number: every integer up to \<open>2 ^ 53\<close> in absolute value is a binary64
  value, and a larger one is rounded to the nearest binary64 value, which is an integer
  again. This is how \<open>JSON.parse\<close> reads an integer of a request body. The sum of two
  numbers that are integers is the exact sum, rounded the same way. Integers beyond the
  largest binary64 value (about \<open>1.8e308\<close>), which become \<open>Infinity\<close>, are outside the
  model.
\<close>

definition numberOfInt :: "int \<Rightarrow> int" where
  "numberOfInt n =
     (if \<bar>n\<bar> \<le> 2 ^ 53 then n
      else case roundToDouble (nat \<bar>n\<bar>) 1 of (m, e) \<Rightarrow> sgn n * (int m * 2 ^ nat e))"

definition addNumbers :: "int \<Rightarrow> int \<Rightarrow> int" where
  "addNumbers a b = numberOfInt (a + b)"

text \<open>
  \<open>x.toFixed(1)\<close> for \<open>0 \<le> x < 10 ^ 21\<close>: with \<open>n\<close> the integer nearest to \<open>10 * x\<close> (the
  larger one of two), the digits of \<open>n\<close> with a point before the last.
\<close>

definition toFixed1 :: "double \<Rightarrow> string" where
  "toFixed1 x =
     (case x of
        (m, e) \<Rightarrow>
          let n = (if e < 0 then (20 * m + 2 ^ nat (- e)) div (2 * 2 ^ nat (- e))
                   else 10 * m * 2 ^ nat e)
          in natToString (n div 10) @ ''.'' @ natToString (n mod 10))"

section \<open>Objects used as counters\<close>

text \<open>
  The analytics records are plain objects from property names to numbers, read and
  written with a computed key: \<open>obj[k] = (obj[k] || 0) + 1\<close>. An object is the list of
  its own properties. A read of a name that is not an own property goes to
  \<open>Object.prototype\<close>, so for the names of its members the read is a built-in value
  and not \<open>undefined\<close>; \<open>+ 1\<close> on anything but a number is string concatenation.
\<close>

datatype jsval = JNum int | JStr string

type_synonym jsobj = "(string \<times> jsval) list"

definition objectPrototypeNames :: "string list" where
  "objectPrototypeNames =
     [''constructor'', ''__defineGetter__'', ''__defineSetter__'', ''hasOwnProperty'',
      ''__lookupGetter__'', ''__lookupSetter__'', ''isPrototypeOf'', ''propertyIsEnumerable'',
      ''toString'', ''valueOf'', ''__proto__'', ''toLocaleString'']"

text \<open>The text of a built-in function, as \<open>+\<close> converts it to a string.\<close>

definition nativeFunctionText :: "string \<Rightarrow> string" where
  "nativeFunctionText k =
     ''function '' @ (if k = ''constructor'' then ''Object'' else k) @ ''() { [native code] }''"

text \<open>
  \<open>obj[k] = (obj[k] || 0) + 1\<close>. The member \<open>__proto__\<close> of \<open>Object.prototype\<close> is an
  accessor, and an assignment to it of a value that is not an object changes nothing. A
  runtime may remove this accessor (Deno does), and then the name is an ordinary one:
  \<open>accessor\<close> says whether the runtime has it.
\<close>

definition incrementProperty :: "bool \<Rightarrow> jsobj \<Rightarrow> string \<Rightarrow> jsobj" where
  "incrementProperty accessor obj k =
     (case map_of obj k of
        Some (JNum n) \<Rightarrow> AList.update k (JNum (n + 1)) obj
      | Some (JStr s) \<Rightarrow> AList.update k (if s = [] then JNum 1 else JStr (s @ ''1'')) obj
      | None \<Rightarrow>
          if k = ''__proto__'' then (if accessor then obj else AList.update k (JNum 1) obj)
          else if k \<in> set objectPrototypeNames
            then AList.update k (JStr (nativeFunctionText k @ ''1'')) obj
          else AList.update k (JNum 1) obj)"

section \<open>The key-value store\<close>

record userProfile =
  user_id :: string
  user_email :: string
  user_name :: string
  user_role :: string
  user_created_at :: string

record chatMessage =
  chat_id :: string
  chat_userId :: string
  chat_message :: string
  chat_isUser :: bool
  chat_riskLevel :: "string option"
  chat_timestamp :: string

record appointment =
  appt_id :: string
  appt_studentId :: string
  appt_counsellorId :: string
  appt_date :: string
  appt_time :: string
  appt_status :: string
  appt_riskLevel :: "string option"
  appt_created_at :: string

record assessment =
  asmt_id :: string
  asmt_userId :: string
  asmt_type :: string
  asmt_scores :: "int list option"
  asmt_responses :: "int list option"
  asmt_result :: string
  asmt_riskLevel :: string
  asmt_timestamp :: string

datatype kvValue =
  Profile userProfile
| ChatMessage chatMessage
| Appointment appointment
| Assessment assessment
| Analytics jsobj

type_synonym kvStore = "(string \<times> kvValue) list"

text \<open>
  The module \<open>kv_store.tsx\<close> that the server imports is not among the sources; its three
  operations are modelled from the spec, on a store that never fails.
\<close>

text \<open>
  Modelled from the spec: \<open>kv.get(key)\<close> of the missing module \<open>kv_store.tsx\<close>, the value
  stored under the key, if any.
\<close>

definition kv_get :: "kvStore \<Rightarrow> string \<Rightarrow> kvValue option" where
  "kv_get store k = map_of store k"

text \<open>
  Modelled from the spec: \<open>kv.set(key, value)\<close> of the missing module \<open>kv_store.tsx\<close>; it
  replaces the value of a key that is present.
\<close>

definition kv_set :: "kvStore \<Rightarrow> string \<Rightarrow> kvValue \<Rightarrow> kvStore" where
  "kv_set store k v = AList.update k v store"

text \<open>
  Modelled from the spec: \<open>kv.getByPrefix(prefix)\<close> of the missing module \<open>kv_store.tsx\<close>,
  the values whose key starts with the prefix, in an order the store chooses (here the
  order of the entries).
\<close>

definition kv_getByPrefix :: "kvStore \<Rightarrow> string \<Rightarrow> kvValue list" where
  "kv_getByPrefix store p = map snd (filter (\<lambda>entry. startsWith (fst entry) p) store)"

text \<open>
  The keys of the records, one template for each kind of record, as the handlers build
  them.
\<close>

definition chatKey :: "string \<Rightarrow> int \<Rightarrow> string" where
  "chatKey userId now = ''chat:'' @ userId @ '':'' @ intToString now"

definition appointmentKey :: "string \<Rightarrow> string" where
  "appointmentKey appointmentId = ''appointment:'' @ appointmentId"

definition studentAppointmentKey :: "string \<Rightarrow> string \<Rightarrow> string" where
  "studentAppointmentKey userId appointmentId =
     ''student-appointment:'' @ userId @ '':'' @ appointmentId"

definition counsellorAppointmentKey :: "string \<Rightarrow> string \<Rightarrow> string" where
  "counsellorAppointmentKey counsellorId appointmentId =
     ''counsellor-appointment:'' @ counsellorId @ '':'' @ appointmentId"

definition riskAnalyticsKey :: "string \<Rightarrow> string" where
  "riskAnalyticsKey date = ''analytics:risk:'' @ date"

definition assessmentKey :: "string \<Rightarrow> string \<Rightarrow> string" where
  "assessmentKey userId assessmentId = ''assessment:'' @ userId @ '':'' @ assessmentId"

definition assessmentAnalyticsKey :: "string \<Rightarrow> string" where
  "assessmentAnalyticsKey date = ''analytics:assessment:'' @ date"

section \<open>The server: chat messages (src/unnamed/part_001, POST /chat)\<close>

datatype httpError = HttpError nat string

text \<open>
  The request body, with its fields at the types the client sends them (a text, a truth
  value and the name of a tier, which may be missing), and what the handler takes from
  its environment: the user the access token belongs to (none when it is invalid), the
  identifiers that \<open>crypto.randomUUID()\<close> returns, the clock readings, one for each place
  where the handler reads the clock, and whether the runtime has the accessor
  \<open>__proto__\<close>.
\<close>

record chatRequest =
  req_message :: string
  req_isUser :: bool
  req_riskLevel :: "string option"

record chatEnv =
  authUser :: "string option"
  chatUuid :: string
  appointmentUuid :: string
  tTimestamp :: int
  tKey :: int
  tAppointment :: int
  tCreated :: int
  tAnalytics :: int
  protoAccessor :: bool

text \<open>The truth value of an optional string: absent and empty are false.\<close>

definition truthy :: "string option \<Rightarrow> bool" where
  "truthy r = (case r of None \<Rightarrow> False | Some s \<Rightarrow> s \<noteq> [])"

text \<open>
  \<open>kv.getByPrefix('user:').filter(profile => profile.role === 'counsellor')\<close>: only a
  profile has a role.
\<close>

definition counsellorProfiles :: "kvStore \<Rightarrow> userProfile list" where
  "counsellorProfiles store =
     filter (\<lambda>profile. user_role profile = ''counsellor'')
       (List.map_filter (\<lambda>v. case v of Profile p \<Rightarrow> Some p | _ \<Rightarrow> None)
          (kv_getByPrefix store ''user:''))"

text \<open>
  The escalation rule, lines 99 to 115 of the handler: the appointment it builds, if
  any.
\<close>

definition maybeEscalate :: "chatEnv \<Rightarrow> string \<Rightarrow> string option \<Rightarrow> kvStore \<Rightarrow> appointment option" where
  "maybeEscalate env userId riskLevel store =
     (if riskLevel = Some ''crisis'' \<or> riskLevel = Some ''high'' then
        (case counsellorProfiles store of
           [] \<Rightarrow> None
         | counsellor # _ \<Rightarrow>
             Some \<lparr> appt_id = appointmentUuid env,
                    appt_studentId = userId,
                    appt_counsellorId = user_id counsellor,
                    appt_date = dateOf (tAppointment env + 24 * 60 * 60 * 1000),
                    appt_time = ''10:00'',
                    appt_status = ''auto-scheduled'',
                    appt_riskLevel = riskLevel,
                    appt_created_at = toISOString (tCreated env) \<rparr>)
      else None)"

text \<open>The three writes of an appointment, lines 116 to 118.\<close>

definition storeAppointment :: "kvStore \<Rightarrow> appointment \<Rightarrow> kvStore" where
  "storeAppointment store a =
     (let store1 = kv_set store (appointmentKey (appt_id a)) (Appointment a);
          store2 = kv_set store1
            (studentAppointmentKey (appt_studentId a) (appt_id a)) (Appointment a)
      in kv_set store2
           (counsellorAppointmentKey (appt_counsellorId a) (appt_id a)) (Appointment a))"

text \<open>
  The daily risk counter, lines 122 to 128. Under an analytics key the handlers store
  counter objects only; a value of another shape there is read as a missing record.
\<close>

definition emptyRiskCounter :: jsobj where
  "emptyRiskCounter =
     [(''low'', JNum 0), (''moderate'', JNum 0), (''high'', JNum 0), (''crisis'', JNum 0)]"

definition incrementRisk :: "bool \<Rightarrow> int \<Rightarrow> string option \<Rightarrow> kvStore \<Rightarrow> kvStore" where
  "incrementRisk accessor t riskLevel store =
     (let analyticsKey = riskAnalyticsKey (dateOf t);
          existingAnalytics =
            (case kv_get store analyticsKey of
               Some (Analytics obj) \<Rightarrow> obj
             | _ \<Rightarrow> emptyRiskCounter)
      in case riskLevel of
           None \<Rightarrow> store
         | Some level \<Rightarrow>
             if level = [] then store
             else kv_set store analyticsKey
               (Analytics (incrementProperty accessor existingAnalytics level)))"

definition chatHandler :: "chatEnv \<Rightarrow> chatRequest \<Rightarrow> kvStore \<Rightarrow> (httpError + chatMessage) \<times> kvStore" where
  "chatHandler env req store =
     (case authUser env of
        None \<Rightarrow> (Inl (HttpError 401 ''Unauthorized''), store)
      | Some userId \<Rightarrow>
          let riskLevel = req_riskLevel req;
              chatMessage =
                \<lparr> chat_id = chatUuid env,
                  chat_userId = userId,
                  chat_message = req_message req,
                  chat_isUser = req_isUser req,
                  chat_riskLevel = (if truthy riskLevel then riskLevel else None),
                  chat_timestamp = toISOString (tTimestamp env) \<rparr>;
              store1 = kv_set store (chatKey userId (tKey env)) (ChatMessage chatMessage);
              store2 =
                (case maybeEscalate env userId riskLevel store1 of
                   None \<Rightarrow> store1
                 | Some a \<Rightarrow> storeAppointment store1 a);
              store3 = incrementRisk (protoAccessor env) (tAnalytics env) riskLevel store2
          in (Inr chatMessage, store3))"

section \<open>The server: self assessment (src/unnamed/part_001, POST /assessment)\<close>

datatype jsError = TypeError

text \<open>
  The body of a submission: the type is a text, the scores and the responses are arrays
  of integers, or missing. The record that the handler stores holds the scores and the
  responses as the body gives them, which is as they were parsed for integers up to
  \<open>2 ^ 53\<close> in absolute value.
\<close>

record assessmentRequest =
  req_type :: string
  req_scores :: "int list option"
  req_responses :: "int list option"

record assessmentEnv =
  asmtAuthUser :: "string option"
  asmtUuid :: string
  asmtTimestamp :: int
  asmtAnalytics :: int
  asmtProtoAccessor :: bool

text \<open>
  \<open>scores.reduce((sum, score) => sum + score, 0)\<close> on the scores as the body was parsed:
  each sum is a sum of two numbers, in double precision. It raises a \<open>TypeError\<close> when
  the body has no array \<open>scores\<close>.
\<close>

definition reduceSum :: "int list option \<Rightarrow> jsError + int" where
  "reduceSum scores =
     (case scores of
        None \<Rightarrow> Inl TypeError
      | Some xs \<Rightarrow> Inr (foldl (\<lambda>sum score. addNumbers sum score) 0 (map numberOfInt xs)))"

definition scorePHQ9 :: "int \<Rightarrow> string \<times> string" where
  "scorePHQ9 totalScore =
     (if totalScore \<le> 4 then (''Minimal Depression'', ''low'')
      else if totalScore \<le> 9 then (''Mild Depression'', ''low'')
      else if totalScore \<le> 14 then (''Moderate Depression'', ''moderate'')
      else if totalScore \<le> 19 then (''Moderately Severe Depression'', ''high'')
      else (''Severe Depression'', ''crisis''))"

definition scoreGAD7 :: "int \<Rightarrow> string \<times> string" where
  "scoreGAD7 totalScore =
     (if totalScore \<le> 4 then (''Minimal Anxiety'', ''low'')
      else if totalScore \<le> 9 then (''Mild Anxiety'', ''low'')
      else if totalScore \<le> 14 then (''Moderate Anxiety'', ''moderate'')
      else (''Severe Anxiety'', ''high''))"

text \<open>
  Lines 310 to 350: the pair \<open>(result, riskLevel)\<close> starts as \<open>('', 'low')\<close> and is set by
  the block of the instrument the type names, if any.
\<close>

definition scoreAssessment :: "string \<Rightarrow> int list option \<Rightarrow> jsError + string \<times> string" where
  "scoreAssessment type scores =
     (let afterPHQ9 =
            (if type = ''PHQ-9'' then
               (case reduceSum scores of
                  Inl err \<Rightarrow> Inl err
                | Inr totalScore \<Rightarrow> Inr (scorePHQ9 totalScore))
             else Inr ([], ''low''))
      in case afterPHQ9 of
           Inl err \<Rightarrow> Inl err
         | Inr current \<Rightarrow>
             if type = ''GAD-7'' then
               (case reduceSum scores of
                  Inl err \<Rightarrow> Inl err
                | Inr totalScore \<Rightarrow> Inr (scoreGAD7 totalScore))
             else Inr current)"

text \<open>The daily assessment counter, lines 365 to 369.\<close>

definition incrementAssessment :: "bool \<Rightarrow> int \<Rightarrow> string \<Rightarrow> kvStore \<Rightarrow> kvStore" where
  "incrementAssessment accessor t type store =
     (let analyticsKey = assessmentAnalyticsKey (dateOf t);
          existingAnalytics =
            (case kv_get store analyticsKey of
               Some (Analytics obj) \<Rightarrow> obj
             | _ \<Rightarrow> [])
      in kv_set store analyticsKey (Analytics (incrementProperty accessor existingAnalytics type)))"

definition assessmentHandler ::
  "assessmentEnv \<Rightarrow> assessmentRequest \<Rightarrow> kvStore \<Rightarrow> (httpError + assessment) \<times> kvStore" where
  "assessmentHandler env req store =
     (case asmtAuthUser env of
        None \<Rightarrow> (Inl (HttpError 401 ''Unauthorized''), store)
      | Some userId \<Rightarrow>
          (case scoreAssessment (req_type req) (req_scores req) of
             Inl err \<Rightarrow> (Inl (HttpError 500 ''Failed to save assessment''), store)
           | Inr (result, riskLevel) \<Rightarrow>
               let assessment =
                     \<lparr> asmt_id = asmtUuid env,
                       asmt_userId = userId,
                       asmt_type = req_type req,
                       asmt_scores = req_scores req,
                       asmt_responses = req_responses req,
                       asmt_result = result,
                       asmt_riskLevel = riskLevel,
                       asmt_timestamp = toISOString (asmtTimestamp env) \<rparr>;
                   store1 = kv_set store
                     (assessmentKey userId (asmt_id assessment)) (Assessment assessment);
                   store2 = incrementAssessment (asmtProtoAccessor env) (asmtAnalytics env)
                     (req_type req) store1
               in (Inr assessment, store2)))"

section \<open>The admin dashboard (src/unnamed/part_000)\<close>

text \<open>
  One element of \<open>analytics.riskAnalytics\<close>: the four counts, each possibly missing.
  The counts are natural numbers below \<open>2 ^ 53\<close>, on which the sums are exact. The
  date shown with each day plays no part in the statistics and is left out.
\<close>

record riskAnalyticsItem =
  item_low :: "nat option"
  item_moderate :: "nat option"
  item_high :: "nat option"
  item_crisis :: "nat option"

record riskDay =
  Low :: nat
  Moderate :: nat
  High :: nat
  Crisis :: nat
  Total :: nat

text \<open>\<open>x || 0\<close> on a count that may be missing.\<close>

definition orZero :: "nat option \<Rightarrow> nat" where
  "orZero x = (case x of None \<Rightarrow> 0 | Some n \<Rightarrow> n)"

text \<open>\<open>xs.slice(-7)\<close>: the last seven elements.\<close>

definition sliceLast7 :: "'a list \<Rightarrow> 'a list" where
  "sliceLast7 xs = drop (length xs - 7) xs"

definition processRiskData :: "riskAnalyticsItem list option \<Rightarrow> riskDay list" where
  "processRiskData riskAnalytics =
     (case riskAnalytics of
        None \<Rightarrow> []
      | Some items \<Rightarrow>
          sliceLast7
            (map (\<lambda>item.
                \<lparr> Low = orZero (item_low item),
                  Moderate = orZero (item_moderate item),
                  High = orZero (item_high item),
                  Crisis = orZero (item_crisis item),
                  Total = orZero (item_low item) + orZero (item_moderate item)
                    + orZero (item_high item) + orZero (item_crisis item) \<rparr>) items))"

record overallStats =
  totalInteractions :: nat
  crisisCases :: nat
  highRiskCases :: nat
  crisisRate :: string

definition getOverallStats :: "riskAnalyticsItem list option \<Rightarrow> overallStats" where
  "getOverallStats riskAnalytics =
     (let riskData = processRiskData riskAnalytics;
          totalInteractions = foldl (\<lambda>sum day. sum + Total day) 0 riskData;
          crisisCases = foldl (\<lambda>sum day. sum + Crisis day) 0 riskData;
          highRiskCases = foldl (\<lambda>sum day. sum + High day) 0 riskData
      in \<lparr> totalInteractions = totalInteractions,
           crisisCases = crisisCases,
           highRiskCases = highRiskCases,
           crisisRate =
             (if 0 < totalInteractions
              then toFixed1 (mulDouble (divDouble crisisCases totalInteractions) 100)
              else ''0'') \<rparr>)"

section \<open>Sequences of requests and the counts of a day\<close>

text \<open>The store after the chat handler has served the requests one after the other.\<close>

definition runChats :: "(chatEnv \<times> chatRequest) list \<Rightarrow> kvStore \<Rightarrow> kvStore" where
  "runChats requests store = fold (\<lambda>(env, req) s. snd (chatHandler env req s)) requests store"

text \<open>
  The count of a tier in the risk counter of a day, read as the code reads it: a missing
  record counts as the record of zeros (line 124 of the server) and a missing count as
  zero (\<open>item.high || 0\<close> in the dashboard).
\<close>

definition riskCount :: "kvStore \<Rightarrow> string \<Rightarrow> string \<Rightarrow> int" where
  "riskCount store date tier =
     (case kv_get store (riskAnalyticsKey date) of
        Some (Analytics obj) \<Rightarrow> (case map_of obj tier of Some (JNum n) \<Rightarrow> n | _ \<Rightarrow> 0)
      | _ \<Rightarrow> 0)"

text \<open>The count of an instrument in the assessment counter of a day, read the same way.\<close>

definition assessmentCount :: "kvStore \<Rightarrow> string \<Rightarrow> string \<Rightarrow> int" where
  "assessmentCount store date instrument =
     (case kv_get store (assessmentAnalyticsKey date) of
        Some (Analytics obj) \<Rightarrow> (case map_of obj instrument of Some (JNum n) \<Rightarrow> n | _ \<Rightarrow> 0)
      | _ \<Rightarrow> 0)"

text \<open>The risk counter of a day with \<open>n\<close> messages of the tier high and no other.\<close>

definition highCounter :: "int \<Rightarrow> jsobj" where
  "highCounter n = [(''low'', JNum 0), (''moderate'', JNum 0), (''high'', JNum n), (''crisis'', JNum 0)]"

section \<open>Example inputs\<close>

definition exampleAssessmentEnv :: assessmentEnv where
  "exampleAssessmentEnv =
     \<lparr> asmtAuthUser = Some ''student-1'', asmtUuid = ''a-1'',
       asmtTimestamp = 1793588400123, asmtAnalytics = 1793588400456,
       asmtProtoAccessor = True \<rparr>"

definition exampleStore :: kvStore where
  "exampleStore =
     [(''user:s-1'', Profile \<lparr> user_id = ''s-1'', user_email = ''s1@example.org'',
         user_name = ''Student One'', user_role = ''student'',
         user_created_at = ''2026-10-01T08:00:00.000Z'' \<rparr>),
      (''user:c-1'', Profile \<lparr> user_id = ''c-1'', user_email = ''c1@example.org'',
         user_name = ''Counsellor One'', user_role = ''counsellor'',
         user_created_at = ''2026-10-01T09:00:00.000Z'' \<rparr>),
      (''user:c-2'', Profile \<lparr> user_id = ''c-2'', user_email = ''c2@example.org'',
         user_name = ''Counsellor Two'', user_role = ''counsellor'',
         user_created_at = ''2026-10-02T09:00:00.000Z'' \<rparr>)]"

definition exampleChatEnv :: chatEnv where
  "exampleChatEnv =
     \<lparr> authUser = Some ''s-1'', chatUuid = ''m-1'', appointmentUuid = ''ap-1'',
       tTimestamp = 1793588400123, tKey = 1793588400124, tAppointment = 1793588400125,
       tCreated = 1793588400126, tAnalytics = 1793588400127, protoAccessor = True \<rparr>"

definition exampleHighRequest :: chatRequest where
  "exampleHighRequest =
     \<lparr> req_message = ''Everything feels hopeless'', req_isUser = True,
       req_riskLevel = Some ''high'' \<rparr>"

definition exampleCrisisAssessment :: assessmentRequest where
  "exampleCrisisAssessment =
     \<lparr> req_type = ''PHQ-9'', req_scores = Some [3, 3, 3, 3, 3, 3, 3, 3, 3],
       req_responses = Some [3, 3, 3, 3, 3, 3, 3, 3, 3] \<rparr>"

definition exampleRiskItem :: riskAnalyticsItem where
  "exampleRiskItem =
     \<lparr> item_low = Some 3, item_moderate = None, item_high = None, item_crisis = Some 1 \<rparr>"

definition exampleInheritedName :: assessmentRequest where
  "exampleInheritedName =
     \<lparr> req_type = ''constructor'', req_scores = Some [], req_responses = Some [] \<rparr>"

definition exampleLargeScores :: "int list" where
  "exampleLargeScores = [2 ^ 53, 1, 1, 1, 1, 1, 1, 1, 1, 1, 1, - (2 ^ 53)]"

section \<open>Properties of the classifier\<close>




text \<open>
  Claim C8: the classifier applied to the empty string returns the tier low.
\<close>

theorem classify_empty_low: "assessRiskBasedOnKeywords [] = ''low''"
  by (simp add: assessRiskBasedOnKeywords_def toLowerCase_def crisisKeywords_def
      highRiskKeywords_def moderateRiskKeywords_def)



section \<open>Properties of the questionnaire scorer\<close>

text \<open>
  The sums of the scorer are exact as long as the absolute values of the scores add up to
  at most \<open>2 ^ 53\<close>: no partial sum leaves the range in which every integer is a number.
\<close>

lemma numberOfInt_exact: "\<bar>n\<bar> \<le> 2 ^ 53 \<Longrightarrow> numberOfInt n = n"
  by (simp add: numberOfInt_def)

lemma sum_list_abs_nonneg: "0 \<le> sum_list (map abs (xs :: int list))"
  by (induction xs) simp_all

lemma foldl_addNumbers_exact:
  "\<bar>a\<bar> + sum_list (map abs xs) \<le> 2 ^ 53 \<Longrightarrow>
   foldl (\<lambda>sum score. addNumbers sum score) a (map numberOfInt xs) = a + sum_list xs"
proof (induction xs arbitrary: a)
  case Nil
  then show ?case by simp
next
  case (Cons x xs)
  have rest: "0 \<le> sum_list (map abs xs)"
    by (rule sum_list_abs_nonneg)
  have x: "numberOfInt x = x"
    using Cons.prems rest by (intro numberOfInt_exact) simp
  have ax: "addNumbers a x = a + x"
    unfolding addNumbers_def using Cons.prems rest by (intro numberOfInt_exact) simp
  have "foldl (\<lambda>sum score. addNumbers sum score) (a + x) (map numberOfInt xs)
      = a + x + sum_list xs"
    using Cons.prems by (intro Cons.IH) simp
  then show ?case
    by (simp add: x ax)
qed

lemma reduceSum_Some:
  "sum_list (map abs xs) \<le> 2 ^ 53 \<Longrightarrow> reduceSum (Some xs) = Inr (sum_list xs)"
  using foldl_addNumbers_exact [of 0 xs] by (simp add: reduceSum_def)

lemma sum_list_bounds:
  "\<forall>x\<in>set xs. 0 \<le> x \<and> x \<le> 3 \<Longrightarrow> 0 \<le> sum_list xs \<and> sum_list xs \<le> 3 * int (length xs)"
  by (induction xs) auto

lemma valid_items_exact:
  fixes xs :: "int list"
  assumes "\<forall>x\<in>set xs. 0 \<le> x \<and> x \<le> 3" and "length xs \<le> 9"
  shows "sum_list (map abs xs) \<le> 2 ^ 53"
proof -
  have "map abs xs = xs"
    using assms(1) by (induction xs) auto
  moreover have "sum_list xs \<le> 27"
    using sum_list_bounds [OF assms(1)] assms(2) by simp
  ultimately show ?thesis by simp
qed

lemma scoreAssessment_PHQ9:
  "sum_list (map abs xs) \<le> 2 ^ 53 \<Longrightarrow>
   scoreAssessment ''PHQ-9'' (Some xs) = Inr (scorePHQ9 (sum_list xs))"
  by (simp add: scoreAssessment_def reduceSum_Some)

lemma scoreAssessment_GAD7:
  "sum_list (map abs xs) \<le> 2 ^ 53 \<Longrightarrow>
   scoreAssessment ''GAD-7'' (Some xs) = Inr (scoreGAD7 (sum_list xs))"
  by (simp add: scoreAssessment_def reduceSum_Some)

lemma scoreAssessment_other:
  "type \<noteq> ''PHQ-9'' \<Longrightarrow> type \<noteq> ''GAD-7'' \<Longrightarrow> scoreAssessment type scores = Inr ([], ''low'')"
  by (simp add: scoreAssessment_def)

lemma assessmentHandler_scored:
  assumes "asmtAuthUser env = Some userId"
    and "scoreAssessment (req_type req) (req_scores req) = Inr (label, tier)"
  shows "fst (assessmentHandler env req store) =
     Inr \<lparr> asmt_id = asmtUuid env, asmt_userId = userId, asmt_type = req_type req,
           asmt_scores = req_scores req, asmt_responses = req_responses req,
           asmt_result = label, asmt_riskLevel = tier,
           asmt_timestamp = toISOString (asmtTimestamp env) \<rparr>"
  using assms by (simp add: assessmentHandler_def Let_def)

text \<open>
  Claim C3: for every valid PHQ-9 submission (nine items, each from 0 to 3) by an
  authenticated user the handler stores an assessment; the total is the sum of the
  items, it lies between 0 and 27, and the label and the tier of the assessment follow
  the threshold table with inclusive bounds. The boundary totals 0, 4, 5, 9 give low,
  10 and 14 moderate, 15 and 19 high, 20 and 27 crisis.
\<close>

theorem phq9_threshold_table:
  assumes "asmtAuthUser env = Some userId"
    and "req_type req = ''PHQ-9''"
    and "req_scores req = Some items"
    and "length items = 9"
    and "\<forall>x\<in>set items. 0 \<le> x \<and> x \<le> 3"
  shows "case fst (assessmentHandler env req store) of
           Inl err \<Rightarrow> False
         | Inr a \<Rightarrow>
             (let t = sum_list items; label = asmt_result a; tier = asmt_riskLevel a in
              reduceSum (req_scores req) = Inr t \<and> 0 \<le> t \<and> t \<le> 27
              \<and> (0 \<le> t \<and> t \<le> 4 \<longrightarrow> label = ''Minimal Depression'' \<and> tier = ''low'')
              \<and> (5 \<le> t \<and> t \<le> 9 \<longrightarrow> label = ''Mild Depression'' \<and> tier = ''low'')
              \<and> (10 \<le> t \<and> t \<le> 14 \<longrightarrow> label = ''Moderate Depression'' \<and> tier = ''moderate'')
              \<and> (15 \<le> t \<and> t \<le> 19 \<longrightarrow> label = ''Moderately Severe Depression'' \<and> tier = ''high'')
              \<and> (20 \<le> t \<and> t \<le> 27 \<longrightarrow> label = ''Severe Depression'' \<and> tier = ''crisis'')
              \<and> (t \<in> {0, 4, 5, 9} \<longrightarrow> tier = ''low'')
              \<and> (t \<in> {10, 14} \<longrightarrow> tier = ''moderate'')
              \<and> (t \<in> {15, 19} \<longrightarrow> tier = ''high'')
              \<and> (t \<in> {20, 27} \<longrightarrow> tier = ''crisis''))"
proof -
  have bounds: "0 \<le> sum_list items" "sum_list items \<le> 27"
    using sum_list_bounds [OF assms(5)] assms(4) by simp_all
  have exact: "sum_list (map abs items) \<le> 2 ^ 53"
    using assms(4,5) by (intro valid_items_exact) simp_all
  have scored: "scoreAssessment (req_type req) (req_scores req)
      = Inr (fst (scorePHQ9 (sum_list items)), snd (scorePHQ9 (sum_list items)))"
    by (simp add: assms(2,3) scoreAssessment_PHQ9 [OF exact])
  show ?thesis
    using bounds
    by (simp add: assessmentHandler_scored [OF assms(1) scored] assms(3) reduceSum_Some [OF exact]
        scorePHQ9_def Let_def)
qed

text \<open>
  The submission with all nine items at 3 (total 27) is scored Severe Depression, crisis.
\<close>

theorem phq9_threshold_table_witness:
  "asmtAuthUser exampleAssessmentEnv = Some ''student-1''
   \<and> length [3, 3, 3, 3, 3, 3, 3, 3, 3 :: int] = 9
   \<and> list_all (\<lambda>x. 0 \<le> x \<and> x \<le> 3) [3, 3, 3, 3, 3, 3, 3, 3, 3 :: int]
   \<and> map_sum id (\<lambda>a. (asmt_result a, asmt_riskLevel a))
        (fst (assessmentHandler exampleAssessmentEnv
           \<lparr> req_type = ''PHQ-9'', req_scores = Some [3, 3, 3, 3, 3, 3, 3, 3, 3],
             req_responses = Some [3, 3, 3, 3, 3, 3, 3, 3, 3] \<rparr> []))
      = Inr (''Severe Depression'', ''crisis'')"
  using phq9_threshold_table [of exampleAssessmentEnv "''student-1''"
      "\<lparr> req_type = ''PHQ-9'', req_scores = Some [3, 3, 3, 3, 3, 3, 3, 3, 3],
         req_responses = Some [3, 3, 3, 3, 3, 3, 3, 3, 3] \<rparr>"
      "[3, 3, 3, 3, 3, 3, 3, 3, 3]" "[]"]
  by (auto simp: exampleAssessmentEnv_def Let_def split: sum.splits)

text \<open>
  Claim C4: for every valid GAD-7 submission (seven items, each from 0 to 3) the total
  lies between 0 and 21, the label and the tier follow the GAD-7 table, and the tier is
  never crisis.
\<close>

theorem gad7_threshold_table:
  assumes "asmtAuthUser env = Some userId"
    and "req_type req = ''GAD-7''"
    and "req_scores req = Some items"
    and "length items = 7"
    and "\<forall>x\<in>set items. 0 \<le> x \<and> x \<le> 3"
  shows "case fst (assessmentHandler env req store) of
           Inl err \<Rightarrow> False
         | Inr a \<Rightarrow>
             (let t = sum_list items; label = asmt_result a; tier = asmt_riskLevel a in
              reduceSum (req_scores req) = Inr t \<and> 0 \<le> t \<and> t \<le> 21
              \<and> (0 \<le> t \<and> t \<le> 4 \<longrightarrow> label = ''Minimal Anxiety'' \<and> tier = ''low'')
              \<and> (5 \<le> t \<and> t \<le> 9 \<longrightarrow> label = ''Mild Anxiety'' \<and> tier = ''low'')
              \<and> (10 \<le> t \<and> t \<le> 14 \<longrightarrow> label = ''Moderate Anxiety'' \<and> tier = ''moderate'')
              \<and> (15 \<le> t \<and> t \<le> 21 \<longrightarrow> label = ''Severe Anxiety'' \<and> tier = ''high'')
              \<and> tier \<noteq> ''crisis'')"
proof -
  have bounds: "0 \<le> sum_list items" "sum_list items \<le> 21"
    using sum_list_bounds [OF assms(5)] assms(4) by simp_all
  have exact: "sum_list (map abs items) \<le> 2 ^ 53"
    using assms(4,5) by (intro valid_items_exact) simp_all
  have scored: "scoreAssessment (req_type req) (req_scores req)
      = Inr (fst (scoreGAD7 (sum_list items)), snd (scoreGAD7 (sum_list items)))"
    by (simp add: assms(2,3) scoreAssessment_GAD7 [OF exact])
  show ?thesis
    using bounds
    by (simp add: assessmentHandler_scored [OF assms(1) scored] assms(3) reduceSum_Some [OF exact]
        scoreGAD7_def Let_def)
qed

text \<open>
  The submission with all seven items at 3 (total 21) is scored Severe Anxiety, high.
\<close>

theorem gad7_threshold_table_witness:
  "asmtAuthUser exampleAssessmentEnv = Some ''student-1''
   \<and> length [3, 3, 3, 3, 3, 3, 3 :: int] = 7
   \<and> list_all (\<lambda>x. 0 \<le> x \<and> x \<le> 3) [3, 3, 3, 3, 3, 3, 3 :: int]
   \<and> map_sum id (\<lambda>a. (asmt_result a, asmt_riskLevel a))
        (fst (assessmentHandler exampleAssessmentEnv
           \<lparr> req_type = ''GAD-7'', req_scores = Some [3, 3, 3, 3, 3, 3, 3],
             req_responses = Some [3, 3, 3, 3, 3, 3, 3] \<rparr> []))
      = Inr (''Severe Anxiety'', ''high'')"
  using gad7_threshold_table [of exampleAssessmentEnv "''student-1''"
      "\<lparr> req_type = ''GAD-7'', req_scores = Some [3, 3, 3, 3, 3, 3, 3],
         req_responses = Some [3, 3, 3, 3, 3, 3, 3] \<rparr>"
      "[3, 3, 3, 3, 3, 3, 3]" "[]"]
  by (auto simp: exampleAssessmentEnv_def Let_def split: sum.splits)

text \<open>
  The one failure that the scores can cause: a PHQ-9 or GAD-7 submission without an array
  of scores gets the general answer of the handler to any error, and nothing is stored.
\<close>

lemma assessmentHandler_no_array:
  assumes "asmtAuthUser env = Some userId"
    and "req_type req = ''PHQ-9'' \<or> req_type req = ''GAD-7''"
    and "req_scores req = None"
  shows "assessmentHandler env req store
     = (Inl (HttpError 500 ''Failed to save assessment''), store)"
  using assms by (auto simp: assessmentHandler_def scoreAssessment_def reduceSum_def)

text \<open>
  Claim C1 says that a submission with the wrong number of items, or with an item outside
  0..3, makes the scorer fail with an error that names the constraint. The handler checks
  neither: a PHQ-9 submission with the single item 3 is stored as Minimal Depression,
  and a GAD-7 submission with seven items, one of them 7, is scored Mild Anxiety.
\<close>

theorem scorer_invalid_input_counterexample:
  "length [3 :: int] \<noteq> 9
   \<and> scoreAssessment ''PHQ-9'' (Some [3]) = Inr (''Minimal Depression'', ''low'')
   \<and> fst (assessmentHandler exampleAssessmentEnv
        \<lparr> req_type = ''PHQ-9'', req_scores = Some [3], req_responses = Some [3] \<rparr> [])
      = Inr \<lparr> asmt_id = ''a-1'', asmt_userId = ''student-1'', asmt_type = ''PHQ-9'',
              asmt_scores = Some [3], asmt_responses = Some [3],
              asmt_result = ''Minimal Depression'', asmt_riskLevel = ''low'',
              asmt_timestamp = toISOString 1793588400123 \<rparr>
   \<and> \<not> (0 \<le> (7 :: int) \<and> (7 :: int) \<le> 3)
   \<and> scoreAssessment ''GAD-7'' (Some [7, 0, 0, 0, 0, 0, 0]) = Inr (''Mild Anxiety'', ''low'')"
proof -
  have phq: "scoreAssessment ''PHQ-9'' (Some [3]) = Inr (''Minimal Depression'', ''low'')"
    by (simp add: scoreAssessment_PHQ9 scorePHQ9_def)
  have gad: "scoreAssessment ''GAD-7'' (Some [7, 0, 0, 0, 0, 0, 0]) = Inr (''Mild Anxiety'', ''low'')"
    by (simp add: scoreAssessment_GAD7 scoreGAD7_def)
  show ?thesis
    using phq gad
    by (simp add: assessmentHandler_scored [of _ "''student-1''" _ "''Minimal Depression''" "''low''"]
        exampleAssessmentEnv_def)
qed

section \<open>Properties of the escalation rule\<close>

lemma digitChar_digit: "digitChar d \<in> set ''0123456789''"
proof -
  have "d mod 10 < length ''0123456789''" by simp
  then show ?thesis
    unfolding digitChar_def by (rule nth_mem)
qed

lemma natToString_digits: "set (natToString n) \<subseteq> set ''0123456789''"
proof (induction n rule: natToString.induct)
  case (1 n)
  show ?case
  proof (cases "n < 10")
    case True
    then show ?thesis
      using digitChar_digit [of n] by (subst natToString.simps) simp
  next
    case False
    then show ?thesis
      using 1 digitChar_digit [of "n mod 10"] by (subst natToString.simps) simp
  qed
qed

lemma padStart_digits: "set (padStart w (natToString n)) \<subseteq> set ''0123456789''"
  using natToString_digits [of n] by (auto simp: padStart_def)

lemma isoYear_no_T: "CHR ''T'' \<notin> set (isoYear y)"
  using padStart_digits [of 4 "nat y"] padStart_digits [of 6 "nat \<bar>y\<bar>"]
  by (auto simp: isoYear_def)

lemma isoDate_no_T: "CHR ''T'' \<notin> set (isoDate d)"
proof -
  obtain y mm dd where c: "civilFromDays d = (y, mm, dd)"
    by (cases "civilFromDays d") auto
  show ?thesis
    using isoYear_no_T [of y] padStart_digits [of 2 "nat mm"] padStart_digits [of 2 "nat dd"]
    by (auto simp: isoDate_def c)
qed

lemma dateOf_isoDate: "dateOf t = isoDate (utcDay t)"
proof -
  have "takeWhile (\<lambda>c. c \<noteq> CHR ''T'') (isoDate (utcDay t) @ ''T'' @ isoTime t @ ''Z'')
      = isoDate (utcDay t) @ takeWhile (\<lambda>c. c \<noteq> CHR ''T'') (''T'' @ isoTime t @ ''Z'')"
    using isoDate_no_T [of "utcDay t"] by (intro takeWhile_append2) auto
  then show ?thesis
    by (simp add: dateOf_def splitT0_def toISOString_def)
qed

lemma utcDay_next: "utcDay (t + 24 * 60 * 60 * 1000) = utcDay t + 1"
  by (simp add: utcDay_def msPerDay_def)

text \<open>
  Claim C5: the escalation rule returns no appointment when the tier is low or moderate.
  When the tier is high or crisis it returns no appointment for an empty pool of
  counsellors, and otherwise an appointment with the first counsellor of the pool, in
  the order in which the store lists the profiles, with status auto-scheduled, the date
  of the day after the current UTC date, time 10:00 and the tier of the message. An
  empty pool gives no appointment and no error: the handler answers every request of
  an authenticated user with the stored message.
\<close>

theorem maybeEscalate_rule:
  "(riskLevel = Some ''low'' \<or> riskLevel = Some ''moderate''
      \<longrightarrow> maybeEscalate env userId riskLevel store = None)
   \<and> (riskLevel = Some ''high'' \<or> riskLevel = Some ''crisis'' \<longrightarrow>
        (case counsellorProfiles store of
           [] \<Rightarrow> maybeEscalate env userId riskLevel store = None
         | counsellor # others \<Rightarrow>
             maybeEscalate env userId riskLevel store =
               Some \<lparr> appt_id = appointmentUuid env,
                      appt_studentId = userId,
                      appt_counsellorId = user_id counsellor,
                      appt_date = isoDate (utcDay (tAppointment env) + 1),
                      appt_time = ''10:00'',
                      appt_status = ''auto-scheduled'',
                      appt_riskLevel = riskLevel,
                      appt_created_at = toISOString (tCreated env) \<rparr>))
   \<and> (counsellorProfiles store = [] \<longrightarrow> maybeEscalate env userId riskLevel store = None)
   \<and> dateOf (tAppointment env) = isoDate (utcDay (tAppointment env))
   \<and> (authUser env = Some userId \<longrightarrow> (\<exists>m. fst (chatHandler env req store) = Inr m))"
proof -
  have next_day: "dateOf (tAppointment env + 24 * 60 * 60 * 1000)
      = isoDate (utcDay (tAppointment env) + 1)"
    by (simp only: dateOf_isoDate utcDay_next)
  have low: "riskLevel = Some ''low'' \<or> riskLevel = Some ''moderate''
      \<longrightarrow> maybeEscalate env userId riskLevel store = None"
    by (auto simp: maybeEscalate_def)
  have high: "riskLevel = Some ''high'' \<or> riskLevel = Some ''crisis'' \<longrightarrow>
        (case counsellorProfiles store of
           [] \<Rightarrow> maybeEscalate env userId riskLevel store = None
         | counsellor # others \<Rightarrow>
             maybeEscalate env userId riskLevel store =
               Some \<lparr> appt_id = appointmentUuid env,
                      appt_studentId = userId,
                      appt_counsellorId = user_id counsellor,
                      appt_date = isoDate (utcDay (tAppointment env) + 1),
                      appt_time = ''10:00'',
                      appt_status = ''auto-scheduled'',
                      appt_riskLevel = riskLevel,
                      appt_created_at = toISOString (tCreated env) \<rparr>)"
    using next_day by (auto simp: maybeEscalate_def split: list.splits)
  have empty: "counsellorProfiles store = [] \<longrightarrow> maybeEscalate env userId riskLevel store = None"
    by (simp add: maybeEscalate_def)
  have served: "authUser env = Some userId \<longrightarrow> (\<exists>m. fst (chatHandler env req store) = Inr m)"
    by (simp add: chatHandler_def Let_def)
  show ?thesis
    using low high empty dateOf_isoDate [of "tAppointment env"] served by (intro conjI)
qed

lemma example_date: "isoDate (utcDay 1793588400125 + 1) = ''2026-11-03''"
  by code_simp

lemma example_pool: "map user_id (counsellorProfiles exampleStore) = [''c-1'', ''c-2'']"
  by (simp add: counsellorProfiles_def kv_getByPrefix_def exampleStore_def List.map_filter_simps)

text \<open>
  A store with one student and two counsellors: a moderate message books nothing, a
  crisis message of 2 November 2026 books the first counsellor for 3 November, and with
  no counsellor at all nothing is booked while the message is stored and answered.
\<close>

theorem maybeEscalate_rule_witness:
  "maybeEscalate exampleChatEnv ''s-1'' (Some ''moderate'') exampleStore = None
   \<and> map_option (\<lambda>a. (appt_counsellorId a, appt_date a, appt_time a, appt_status a, appt_riskLevel a))
        (maybeEscalate exampleChatEnv ''s-1'' (Some ''crisis'') exampleStore)
      = Some (''c-1'', ''2026-11-03'', ''10:00'', ''auto-scheduled'', Some ''crisis'')
   \<and> counsellorProfiles [] = []
   \<and> maybeEscalate exampleChatEnv ''s-1'' (Some ''crisis'') [] = None
   \<and> authUser exampleChatEnv = Some ''s-1''
   \<and> map_sum id chat_riskLevel (fst (chatHandler exampleChatEnv exampleHighRequest []))
      = Inr (Some ''high'')"
proof -
  have pool: "counsellorProfiles exampleStore \<noteq> []"
    using example_pool by auto
  have none: "counsellorProfiles [] = []"
    by (simp add: counsellorProfiles_def kv_getByPrefix_def List.map_filter_simps)
  have served: "map_sum id chat_riskLevel (fst (chatHandler exampleChatEnv exampleHighRequest []))
      = Inr (Some ''high'')"
    by (simp add: chatHandler_def exampleChatEnv_def exampleHighRequest_def truthy_def Let_def)
  show ?thesis
    using maybeEscalate_rule [where riskLevel = "Some ''moderate''" and env = exampleChatEnv
        and userId = "''s-1''" and store = exampleStore and req = exampleHighRequest]
      maybeEscalate_rule [where riskLevel = "Some ''crisis''" and env = exampleChatEnv
        and userId = "''s-1''" and store = exampleStore and req = exampleHighRequest]
      maybeEscalate_rule [where riskLevel = "Some ''crisis''" and env = exampleChatEnv
        and userId = "''s-1''" and store = "[]" and req = exampleHighRequest]
      example_pool example_date none served
    by (auto simp: exampleChatEnv_def split: list.splits)
qed

section \<open>Properties of the store and of the daily risk counter\<close>

lemma kv_get_kv_set: "kv_get (kv_set store k v) k' = (if k' = k then Some v else kv_get store k')"
  by (simp add: kv_get_def kv_set_def update_conv')

lemma kv_get_kv_set_other: "k' \<noteq> k \<Longrightarrow> kv_get (kv_set store k v) k' = kv_get store k'"
  by (simp add: kv_get_kv_set)

lemma kv_getByPrefix_kv_set_other:
  "\<not> startsWith k p \<Longrightarrow> kv_getByPrefix (kv_set store k v) p = kv_getByPrefix store p"
  unfolding kv_getByPrefix_def kv_set_def
  by (induction store) auto

text \<open>Each key template starts with its own prefix.\<close>

lemma key_prefixes:
  "startsWith (chatKey userId now) ''chat:''"
  "startsWith (appointmentKey aid) ''appointment:''"
  "startsWith (studentAppointmentKey userId aid) ''student-appointment:''"
  "startsWith (counsellorAppointmentKey cid aid) ''counsellor-appointment:''"
  "startsWith (riskAnalyticsKey date) ''analytics:risk:''"
  "startsWith (assessmentKey userId aid) ''assessment:''"
  "startsWith (assessmentAnalyticsKey date) ''analytics:assessment:''"
  by (simp_all add: chatKey_def appointmentKey_def studentAppointmentKey_def
      counsellorAppointmentKey_def riskAnalyticsKey_def assessmentKey_def
      assessmentAnalyticsKey_def)

lemma not_prefix_neq: "\<not> startsWith k p \<Longrightarrow> startsWith k' p \<Longrightarrow> k \<noteq> k'"
  by auto

lemma risk_key_not_other:
  "\<not> startsWith (riskAnalyticsKey date) ''chat:''"
  "\<not> startsWith (riskAnalyticsKey date) ''appointment:''"
  "\<not> startsWith (riskAnalyticsKey date) ''student-appointment:''"
  "\<not> startsWith (riskAnalyticsKey date) ''counsellor-appointment:''"
  "\<not> startsWith (riskAnalyticsKey date) ''assessment:''"
  "\<not> startsWith (riskAnalyticsKey date) ''analytics:assessment:''"
  by (simp_all add: riskAnalyticsKey_def)

lemma storeAppointment_get_other:
  assumes "\<not> startsWith k ''appointment:''"
    and "\<not> startsWith k ''student-appointment:''"
    and "\<not> startsWith k ''counsellor-appointment:''"
  shows "kv_get (storeAppointment store a) k = kv_get store k"
  unfolding storeAppointment_def Let_def
  by (simp only: kv_get_kv_set_other not_prefix_neq [OF assms(1) key_prefixes(2)]
      not_prefix_neq [OF assms(2) key_prefixes(3)] not_prefix_neq [OF assms(3) key_prefixes(4)]
      not_False_eq_True)

lemma incrementRisk_get:
  "kv_get (incrementRisk accessor t riskLevel store) k =
     (if k = riskAnalyticsKey (dateOf t) \<and> truthy riskLevel
      then Some (Analytics (incrementProperty accessor
             (case kv_get store k of Some (Analytics obj) \<Rightarrow> obj | _ \<Rightarrow> emptyRiskCounter)
             (the riskLevel)))
      else kv_get store k)"
  by (auto simp: incrementRisk_def truthy_def kv_get_kv_set Let_def split: option.splits)

lemma incrementRisk_cong:
  assumes same: "kv_get s1 k = kv_get s2 k"
  shows "kv_get (incrementRisk accessor t riskLevel s1) k = kv_get (incrementRisk accessor t riskLevel s2) k"
  unfolding incrementRisk_get same by (rule refl)

text \<open>The store after an authenticated chat request, step by step.\<close>

lemma chatHandler_store:
  assumes "authUser env = Some userId"
  shows "\<exists>m s2. snd (chatHandler env req store)
        = incrementRisk (protoAccessor env) (tAnalytics env) (req_riskLevel req) s2
     \<and> (s2 = kv_set store (chatKey userId (tKey env)) (ChatMessage m)
        \<or> (\<exists>a. s2 = storeAppointment (kv_set store (chatKey userId (tKey env)) (ChatMessage m)) a))"
  using assms by (auto simp: chatHandler_def Let_def split: option.splits)

lemma chatHandler_get_other:
  assumes "authUser env = Some userId"
    and "\<not> startsWith k ''chat:''"
    and "\<not> startsWith k ''appointment:''"
    and "\<not> startsWith k ''student-appointment:''"
    and "\<not> startsWith k ''counsellor-appointment:''"
  shows "kv_get (snd (chatHandler env req store)) k
     = kv_get (incrementRisk (protoAccessor env) (tAnalytics env) (req_riskLevel req) store) k"
proof -
  obtain m s2 where
    final: "snd (chatHandler env req store) = incrementRisk (protoAccessor env) (tAnalytics env) (req_riskLevel req) s2"
    and s2: "s2 = kv_set store (chatKey userId (tKey env)) (ChatMessage m)
        \<or> (\<exists>a. s2 = storeAppointment (kv_set store (chatKey userId (tKey env)) (ChatMessage m)) a)"
    using chatHandler_store [OF assms(1)] by blast
  have chat: "kv_get (kv_set store (chatKey userId (tKey env)) (ChatMessage m)) k = kv_get store k"
    by (simp add: kv_get_kv_set_other not_prefix_neq [OF assms(2) key_prefixes(1)])
  have "kv_get s2 k = kv_get store k"
    using s2 chat storeAppointment_get_other [OF assms(3,4,5)] by auto
  then show ?thesis
    unfolding final by (rule incrementRisk_cong)
qed

lemma chatHandler_risk_counter:
  assumes "authUser env = Some userId"
  shows "kv_get (snd (chatHandler env req store)) (riskAnalyticsKey d)
     = kv_get (incrementRisk (protoAccessor env) (tAnalytics env) (req_riskLevel req) store) (riskAnalyticsKey d)"
  by (rule chatHandler_get_other [OF assms risk_key_not_other(1,2,3,4)])

lemma incrementProperty_high: "incrementProperty accessor (highCounter n) ''high'' = highCounter (n + 1)"
  by (simp add: incrementProperty_def highCounter_def)

lemma emptyRiskCounter_high: "emptyRiskCounter = highCounter 0"
  by (simp add: emptyRiskCounter_def highCounter_def)

lemma incrementRisk_high_step:
  assumes "dateOf t = date"
    and "kv_get store (riskAnalyticsKey date) = None \<and> n = 0
       \<or> kv_get store (riskAnalyticsKey date) = Some (Analytics (highCounter n))"
  shows "kv_get (incrementRisk accessor t (Some ''high'') store) (riskAnalyticsKey date)
     = Some (Analytics (highCounter (n + 1)))"
  using assms incrementProperty_high [of accessor n] incrementProperty_high [of accessor 0]
  by (auto simp: incrementRisk_get truthy_def emptyRiskCounter_high)

lemma fold_incrementRisk_high:
  assumes "\<forall>t\<in>set instants. dateOf t = date"
    and "kv_get store (riskAnalyticsKey date) = None \<and> n = 0
       \<or> kv_get store (riskAnalyticsKey date) = Some (Analytics (highCounter n))"
    and "instants \<noteq> []"
  shows "kv_get (fold (\<lambda>t. incrementRisk accessor t (Some ''high'')) instants store) (riskAnalyticsKey date)
     = Some (Analytics (highCounter (n + int (length instants))))"
  using assms
proof (induction instants arbitrary: store n)
  case Nil
  then show ?case by simp
next
  case (Cons t instants)
  have step: "kv_get (incrementRisk accessor t (Some ''high'') store) (riskAnalyticsKey date)
      = Some (Analytics (highCounter (n + 1)))"
    using Cons.prems by (intro incrementRisk_high_step) auto
  show ?case
  proof (cases "instants = []")
    case True
    then show ?thesis using step by simp
  next
    case False
    have "kv_get (fold (\<lambda>t. incrementRisk accessor t (Some ''high'')) instants (incrementRisk accessor t (Some ''high'') store))
        (riskAnalyticsKey date)
      = Some (Analytics (highCounter (n + 1 + int (length instants))))"
      using Cons.prems(1) step False by (intro Cons.IH) auto
    then show ?thesis by (simp add: algebra_simps)
  qed
qed

lemma runChats_high:
  assumes "\<forall>(env, req)\<in>set requests.
      authUser env \<noteq> None \<and> req_riskLevel req = Some ''high'' \<and> dateOf (tAnalytics env) = date"
    and "kv_get store (riskAnalyticsKey date) = None \<and> n = 0
       \<or> kv_get store (riskAnalyticsKey date) = Some (Analytics (highCounter n))"
    and "requests \<noteq> []"
  shows "kv_get (runChats requests store) (riskAnalyticsKey date)
     = Some (Analytics (highCounter (n + int (length requests))))"
  using assms
proof (induction requests arbitrary: store n)
  case Nil
  then show ?case by simp
next
  case (Cons r requests)
  obtain env req where r: "r = (env, req)" by (cases r)
  from Cons.prems(1) r obtain userId where
    auth: "authUser env = Some userId" and high: "req_riskLevel req = Some ''high''"
    and day: "dateOf (tAnalytics env) = date"
    by auto
  let ?s = "snd (chatHandler env req store)"
  have step: "kv_get ?s (riskAnalyticsKey date) = Some (Analytics (highCounter (n + 1)))"
    using incrementRisk_high_step [OF day Cons.prems(2)]
    by (simp add: chatHandler_risk_counter [OF auth] high)
  have unfold: "runChats (r # requests) store = runChats requests ?s"
    by (simp add: runChats_def r)
  show ?case
  proof (cases "requests = []")
    case True
    have "runChats [r] store = ?s"
      by (simp add: runChats_def r)
    then show ?thesis
      using True step by simp
  next
    case False
    have "kv_get (runChats requests ?s) (riskAnalyticsKey date)
      = Some (Analytics (highCounter (n + 1 + int (length requests))))"
      using Cons.prems(1) step False by (intro Cons.IH) auto
    then show ?thesis by (simp add: unfold algebra_simps)
  qed
qed

lemma count_incrementProperty_mono:
  "(case map_of obj tier of Some (JNum n) \<Rightarrow> n | _ \<Rightarrow> 0)
     \<le> (case map_of (incrementProperty accessor obj level) tier of Some (JNum n) \<Rightarrow> n | _ \<Rightarrow> (0::int))"
  by (auto simp: incrementProperty_def update_conv' split: option.splits jsval.splits)

lemma riskCount_incrementRisk_mono:
  "riskCount store date tier \<le> riskCount (incrementRisk accessor t riskLevel store) date tier"
proof (cases "riskAnalyticsKey date = riskAnalyticsKey (dateOf t) \<and> truthy riskLevel")
  case False
  then have "kv_get (incrementRisk accessor t riskLevel store) (riskAnalyticsKey date)
      = kv_get store (riskAnalyticsKey date)"
    by (simp only: incrementRisk_get if_False)
  then show ?thesis by (simp add: riskCount_def)
next
  case True
  define obj where "obj = (case kv_get store (riskAnalyticsKey date) of
      Some (Analytics obj) \<Rightarrow> obj | _ \<Rightarrow> emptyRiskCounter)"
  have after: "riskCount (incrementRisk accessor t riskLevel store) date tier
      = (case map_of (incrementProperty accessor obj (the riskLevel)) tier of Some (JNum n) \<Rightarrow> n | _ \<Rightarrow> 0)"
    using True by (simp add: riskCount_def incrementRisk_get obj_def)
  have before: "riskCount store date tier
      \<le> (case map_of obj tier of Some (JNum n) \<Rightarrow> n | _ \<Rightarrow> 0)"
    by (auto simp: riskCount_def obj_def emptyRiskCounter_def
        split: option.splits kvValue.splits jsval.splits)
  show ?thesis
    using before count_incrementProperty_mono [of obj tier accessor "the riskLevel"]
    unfolding after by (rule order_trans)
qed

lemma riskCount_chatHandler_mono:
  "riskCount store date tier \<le> riskCount (snd (chatHandler env req store)) date tier"
proof (cases "authUser env")
  case None
  then show ?thesis by (simp add: chatHandler_def)
next
  case (Some userId)
  have "riskCount (snd (chatHandler env req store)) date tier
      = riskCount (incrementRisk (protoAccessor env) (tAnalytics env) (req_riskLevel req) store) date tier"
    by (simp add: riskCount_def chatHandler_risk_counter [OF Some])
  then show ?thesis
    using riskCount_incrementRisk_mono by simp
qed

text \<open>
  Claim C6: on a store with no risk counter for a date, \<open>N\<close> applications of the
  counter update with the tier high, at instants of that date, leave the counter of the
  date at \<open>N\<close> for high and 0 for low, moderate and crisis; with \<open>N = 0\<close> there is still
  no record, which reads as zero everywhere. The same holds for \<open>N\<close> chat messages of
  the tier high served by the handler. No update and no chat request ever lowers a
  count of any tier on any date.
\<close>

theorem incrementRisk_high_counts:
  assumes "kv_get store (riskAnalyticsKey date) = None"
    and "\<forall>t\<in>set instants. dateOf t = date"
    and "\<forall>(env, req)\<in>set requests.
      authUser env \<noteq> None \<and> req_riskLevel req = Some ''high'' \<and> dateOf (tAnalytics env) = date"
  shows "(instants \<noteq> [] \<longrightarrow>
          kv_get (fold (\<lambda>t. incrementRisk accessor t (Some ''high'')) instants store) (riskAnalyticsKey date)
          = Some (Analytics [(''low'', JNum 0), (''moderate'', JNum 0),
               (''high'', JNum (int (length instants))), (''crisis'', JNum 0)]))
     \<and> (instants = [] \<longrightarrow>
          kv_get (fold (\<lambda>t. incrementRisk accessor t (Some ''high'')) instants store) (riskAnalyticsKey date)
          = None)
     \<and> (requests \<noteq> [] \<longrightarrow>
          kv_get (runChats requests store) (riskAnalyticsKey date)
          = Some (Analytics [(''low'', JNum 0), (''moderate'', JNum 0),
               (''high'', JNum (int (length requests))), (''crisis'', JNum 0)]))
     \<and> riskCount (runChats requests store) date ''high'' = int (length requests)
     \<and> riskCount (runChats requests store) date ''low'' = 0
     \<and> riskCount (runChats requests store) date ''moderate'' = 0
     \<and> riskCount (runChats requests store) date ''crisis'' = 0
     \<and> (\<forall>s d tier a t r. riskCount s d tier \<le> riskCount (incrementRisk a t r s) d tier)
     \<and> (\<forall>s d tier env req. riskCount s d tier \<le> riskCount (snd (chatHandler env req s)) d tier)"
proof -
  have start: "kv_get store (riskAnalyticsKey date) = None \<and> (0::int) = 0
      \<or> kv_get store (riskAnalyticsKey date) = Some (Analytics (highCounter 0))"
    using assms(1) by simp
  have block: "instants \<noteq> [] \<longrightarrow>
      kv_get (fold (\<lambda>t. incrementRisk accessor t (Some ''high'')) instants store) (riskAnalyticsKey date)
      = Some (Analytics (highCounter (int (length instants))))"
    using fold_incrementRisk_high [OF assms(2) start] by simp
  have block0: "instants = [] \<longrightarrow>
      kv_get (fold (\<lambda>t. incrementRisk accessor t (Some ''high'')) instants store) (riskAnalyticsKey date)
      = None"
    using assms(1) by simp
  have chats: "requests \<noteq> [] \<longrightarrow>
      kv_get (runChats requests store) (riskAnalyticsKey date)
      = Some (Analytics (highCounter (int (length requests))))"
    using runChats_high [OF assms(3) start] by simp
  have counts: "riskCount (runChats requests store) date ''high'' = int (length requests)
      \<and> riskCount (runChats requests store) date ''low'' = 0
      \<and> riskCount (runChats requests store) date ''moderate'' = 0
      \<and> riskCount (runChats requests store) date ''crisis'' = 0"
  proof (cases "requests = []")
    case True
    then show ?thesis
      using assms(1) by (simp add: runChats_def riskCount_def)
  next
    case False
    then show ?thesis
      using chats by (simp add: riskCount_def highCounter_def)
  qed
  show ?thesis
    using block block0 chats counts riskCount_incrementRisk_mono riskCount_chatHandler_mono
    unfolding highCounter_def by blast
qed

lemma example_days:
  "isoDate (utcDay 1793588400127) = ''2026-11-02''"
  "isoDate (utcDay 1793588400456) = ''2026-11-02''"
  "isoDate (utcDay 1793599200000) = ''2026-11-02''"
  by code_simp+

lemma example_dates:
  "dateOf 1793588400127 = ''2026-11-02''"
  "dateOf 1793588400456 = ''2026-11-02''"
  "dateOf 1793599200000 = ''2026-11-02''"
  by (simp_all only: dateOf_isoDate example_days)

lemma exampleStore_no_risk: "kv_get exampleStore (riskAnalyticsKey d) = None"
  by (simp add: kv_get_def exampleStore_def riskAnalyticsKey_def)

text \<open>
  Three updates, and two chat messages, on 2 November 2026.
\<close>

theorem incrementRisk_high_counts_witness:
  "kv_get exampleStore (riskAnalyticsKey ''2026-11-02'') = None
   \<and> list_all (\<lambda>t. dateOf t = ''2026-11-02'') [1793588400127, 1793588400456, 1793599200000]
   \<and> authUser exampleChatEnv = Some ''s-1''
   \<and> req_riskLevel exampleHighRequest = Some ''high''
   \<and> dateOf (tAnalytics exampleChatEnv) = ''2026-11-02''
   \<and> kv_get (fold (\<lambda>t. incrementRisk True t (Some ''high''))
         [1793588400127, 1793588400456, 1793599200000] exampleStore)
        (riskAnalyticsKey ''2026-11-02'')
      = Some (Analytics [(''low'', JNum 0), (''moderate'', JNum 0), (''high'', JNum 3),
          (''crisis'', JNum 0)])
   \<and> kv_get (runChats [(exampleChatEnv, exampleHighRequest), (exampleChatEnv, exampleHighRequest)]
         exampleStore) (riskAnalyticsKey ''2026-11-02'')
      = Some (Analytics [(''low'', JNum 0), (''moderate'', JNum 0), (''high'', JNum 2),
          (''crisis'', JNum 0)])"
  using incrementRisk_high_counts [where store = exampleStore and date = "''2026-11-02''"
      and instants = "[1793588400127, 1793588400456, 1793599200000]"
      and requests = "[(exampleChatEnv, exampleHighRequest), (exampleChatEnv, exampleHighRequest)]"
      and accessor = True]
    example_dates exampleStore_no_risk
  by (simp add: exampleChatEnv_def exampleHighRequest_def)

section \<open>Properties of the assessment handler\<close>

lemma assessment_key_not_other:
  "\<not> startsWith (assessmentKey userId aid) ''appointment:''"
  "\<not> startsWith (assessmentKey userId aid) ''student-appointment:''"
  "\<not> startsWith (assessmentKey userId aid) ''counsellor-appointment:''"
  "\<not> startsWith (assessmentKey userId aid) ''analytics:risk:''"
  "\<not> startsWith (assessmentAnalyticsKey date) ''appointment:''"
  "\<not> startsWith (assessmentAnalyticsKey date) ''student-appointment:''"
  "\<not> startsWith (assessmentAnalyticsKey date) ''counsellor-appointment:''"
  "\<not> startsWith (assessmentAnalyticsKey date) ''analytics:risk:''"
  by (simp_all add: assessmentKey_def assessmentAnalyticsKey_def)

text \<open>The store after an assessment request: unchanged, or with two writes.\<close>

lemma assessmentHandler_store:
  "snd (assessmentHandler env req store) = store
   \<or> (\<exists>userId a obj. asmtAuthUser env = Some userId
        \<and> snd (assessmentHandler env req store)
          = kv_set (kv_set store (assessmentKey userId (asmtUuid env)) (Assessment a))
              (assessmentAnalyticsKey (dateOf (asmtAnalytics env))) (Analytics obj))"
  by (auto simp: assessmentHandler_def incrementAssessment_def Let_def
      split: option.splits sum.splits)

lemma assessmentHandler_get_other:
  assumes "\<forall>userId. asmtAuthUser env = Some userId \<longrightarrow> k \<noteq> assessmentKey userId (asmtUuid env)"
    and "k \<noteq> assessmentAnalyticsKey (dateOf (asmtAnalytics env))"
  shows "kv_get (snd (assessmentHandler env req store)) k = kv_get store k"
  using assessmentHandler_store [of env req store] assms
  by (auto simp: kv_get_kv_set_other)

lemma assessmentHandler_getByPrefix_other:
  assumes "\<And>userId aid. \<not> startsWith (assessmentKey userId aid) p"
    and "\<And>date. \<not> startsWith (assessmentAnalyticsKey date) p"
  shows "kv_getByPrefix (snd (assessmentHandler env req store)) p = kv_getByPrefix store p"
  using assessmentHandler_store [of env req store] assms
  by (auto simp: kv_getByPrefix_kv_set_other)

lemma assessmentHandler_risk_unchanged:
  "kv_get (snd (assessmentHandler env req store)) (riskAnalyticsKey date)
     = kv_get store (riskAnalyticsKey date)"
proof (rule assessmentHandler_get_other)
  show "\<forall>userId. asmtAuthUser env = Some userId
      \<longrightarrow> riskAnalyticsKey date \<noteq> assessmentKey userId (asmtUuid env)"
    using not_prefix_neq [OF risk_key_not_other(5) key_prefixes(6)] by blast
  show "riskAnalyticsKey date \<noteq> assessmentAnalyticsKey (dateOf (asmtAnalytics env))"
    using not_prefix_neq [OF risk_key_not_other(6) key_prefixes(7)] by blast
qed

text \<open>The chat path, for the contrast: a high or crisis message books an appointment.\<close>

lemma counsellorProfiles_after_chat:
  "counsellorProfiles (kv_set store (chatKey userId now) v) = counsellorProfiles store"
proof -
  have "\<not> startsWith (chatKey userId now) ''user:''"
    by (simp add: chatKey_def)
  then show ?thesis
    by (simp add: counsellorProfiles_def kv_getByPrefix_kv_set_other)
qed

lemma appointment_key_not_other:
  "\<not> startsWith (appointmentKey aid) ''student-appointment:''"
  "\<not> startsWith (appointmentKey aid) ''counsellor-appointment:''"
  "\<not> startsWith (appointmentKey aid) ''analytics:risk:''"
  by (simp_all add: appointmentKey_def)

lemma storeAppointment_get_appointment:
  "kv_get (storeAppointment store a) (appointmentKey (appt_id a)) = Some (Appointment a)"
  unfolding storeAppointment_def Let_def
  by (simp add: kv_get_kv_set
      not_prefix_neq [OF appointment_key_not_other(1) key_prefixes(3)]
      not_prefix_neq [OF appointment_key_not_other(2) key_prefixes(4)])

lemma chatHandler_books:
  assumes auth: "authUser env = Some userId"
    and tier: "req_riskLevel req = Some ''high'' \<or> req_riskLevel req = Some ''crisis''"
    and pool: "counsellorProfiles store \<noteq> []"
  shows "\<exists>a. kv_get (snd (chatHandler env req store)) (appointmentKey (appointmentUuid env))
        = Some (Appointment a)
     \<and> appt_status a = ''auto-scheduled'' \<and> appt_riskLevel a = req_riskLevel req"
proof -
  let ?m = "\<lparr> chat_id = chatUuid env, chat_userId = userId,
         chat_message = req_message req, chat_isUser = req_isUser req,
         chat_riskLevel = (if truthy (req_riskLevel req) then req_riskLevel req else None),
         chat_timestamp = toISOString (tTimestamp env) \<rparr>"
  let ?s1 = "kv_set store (chatKey userId (tKey env)) (ChatMessage ?m)"
  obtain c cs where cs: "counsellorProfiles ?s1 = c # cs"
    using pool by (cases "counsellorProfiles store") (auto simp: counsellorProfiles_after_chat)
  obtain a where a: "maybeEscalate env userId (req_riskLevel req) ?s1 = Some a"
    and id: "appt_id a = appointmentUuid env"
    and status: "appt_status a = ''auto-scheduled''"
    and level: "appt_riskLevel a = req_riskLevel req"
    using tier cs by (auto simp: maybeEscalate_def)
  have final: "snd (chatHandler env req store)
      = incrementRisk (protoAccessor env) (tAnalytics env) (req_riskLevel req) (storeAppointment ?s1 a)"
    using auth a by (simp add: chatHandler_def Let_def)
  have "kv_get (snd (chatHandler env req store)) (appointmentKey (appointmentUuid env))
      = kv_get (storeAppointment ?s1 a) (appointmentKey (appointmentUuid env))"
    unfolding final incrementRisk_get
    using not_prefix_neq [OF appointment_key_not_other(3) key_prefixes(5)] by simp
  then show ?thesis
    using storeAppointment_get_appointment [of ?s1 a] id status level by auto
qed

text \<open>
  Claim C10: whatever the submission and the tier computed for it, the assessment
  handler changes the store at two keys at most, the key of the assessment record and
  the key of the assessment counter of the day, and at none without an authenticated
  user. The records listed under the three appointment prefixes and under the risk
  prefix are the same before and after, and so is the risk counter of every date. On
  the chat path a message of the tier high or crisis, with a counsellor in the store,
  does book an auto-scheduled appointment.
\<close>

theorem assessment_writes_no_appointment:
  "(case asmtAuthUser env of
      None \<Rightarrow> snd (assessmentHandler env req store) = store
    | Some userId \<Rightarrow>
        (\<forall>k. k \<noteq> assessmentKey userId (asmtUuid env)
            \<and> k \<noteq> assessmentAnalyticsKey (dateOf (asmtAnalytics env))
          \<longrightarrow> kv_get (snd (assessmentHandler env req store)) k = kv_get store k))
   \<and> kv_getByPrefix (snd (assessmentHandler env req store)) ''appointment:''
       = kv_getByPrefix store ''appointment:''
   \<and> kv_getByPrefix (snd (assessmentHandler env req store)) ''student-appointment:''
       = kv_getByPrefix store ''student-appointment:''
   \<and> kv_getByPrefix (snd (assessmentHandler env req store)) ''counsellor-appointment:''
       = kv_getByPrefix store ''counsellor-appointment:''
   \<and> kv_getByPrefix (snd (assessmentHandler env req store)) ''analytics:risk:''
       = kv_getByPrefix store ''analytics:risk:''
   \<and> (\<forall>date. kv_get (snd (assessmentHandler env req store)) (riskAnalyticsKey date)
         = kv_get store (riskAnalyticsKey date))
   \<and> (\<forall>date tier. riskCount (snd (assessmentHandler env req store)) date tier
         = riskCount store date tier)
   \<and> (\<forall>cenv creq userId.
         authUser cenv = Some userId
         \<and> (req_riskLevel creq = Some ''high'' \<or> req_riskLevel creq = Some ''crisis'')
         \<and> counsellorProfiles store \<noteq> []
         \<longrightarrow> (\<exists>a. kv_get (snd (chatHandler cenv creq store)) (appointmentKey (appointmentUuid cenv))
                 = Some (Appointment a)
               \<and> appt_status a = ''auto-scheduled''))"
proof -
  have frame: "case asmtAuthUser env of
      None \<Rightarrow> snd (assessmentHandler env req store) = store
    | Some userId \<Rightarrow>
        (\<forall>k. k \<noteq> assessmentKey userId (asmtUuid env)
            \<and> k \<noteq> assessmentAnalyticsKey (dateOf (asmtAnalytics env))
          \<longrightarrow> kv_get (snd (assessmentHandler env req store)) k = kv_get store k)"
  proof (cases "asmtAuthUser env")
    case None
    then show ?thesis by (simp add: assessmentHandler_def)
  next
    case (Some userId)
    then show ?thesis
      using assessmentHandler_get_other [of env _ req store] by simp
  qed
  have prefixes:
    "kv_getByPrefix (snd (assessmentHandler env req store)) ''appointment:''
       = kv_getByPrefix store ''appointment:''"
    "kv_getByPrefix (snd (assessmentHandler env req store)) ''student-appointment:''
       = kv_getByPrefix store ''student-appointment:''"
    "kv_getByPrefix (snd (assessmentHandler env req store)) ''counsellor-appointment:''
       = kv_getByPrefix store ''counsellor-appointment:''"
    "kv_getByPrefix (snd (assessmentHandler env req store)) ''analytics:risk:''
       = kv_getByPrefix store ''analytics:risk:''"
    by (rule assessmentHandler_getByPrefix_other; rule assessment_key_not_other)+
  have risk: "\<forall>date. kv_get (snd (assessmentHandler env req store)) (riskAnalyticsKey date)
         = kv_get store (riskAnalyticsKey date)"
    by (simp add: assessmentHandler_risk_unchanged)
  have counts: "\<forall>date tier. riskCount (snd (assessmentHandler env req store)) date tier
         = riskCount store date tier"
    by (simp add: riskCount_def assessmentHandler_risk_unchanged)
  have chat: "\<forall>cenv creq userId.
         authUser cenv = Some userId
         \<and> (req_riskLevel creq = Some ''high'' \<or> req_riskLevel creq = Some ''crisis'')
         \<and> counsellorProfiles store \<noteq> []
         \<longrightarrow> (\<exists>a. kv_get (snd (chatHandler cenv creq store)) (appointmentKey (appointmentUuid cenv))
                 = Some (Appointment a)
               \<and> appt_status a = ''auto-scheduled'')"
    using chatHandler_books by blast
  show ?thesis
    using frame prefixes risk counts chat by (intro conjI)
qed

text \<open>
  A PHQ-9 submission scored crisis, on a store with two counsellors: no appointment and
  no risk counter afterwards, the profiles untouched, while a chat message of the tier
  high on the same store books an appointment.
\<close>

theorem assessment_writes_no_appointment_witness:
  "asmtAuthUser exampleAssessmentEnv = Some ''student-1''
   \<and> map_sum id asmt_riskLevel
        (fst (assessmentHandler exampleAssessmentEnv exampleCrisisAssessment exampleStore))
      = Inr ''crisis''
   \<and> kv_getByPrefix (snd (assessmentHandler exampleAssessmentEnv exampleCrisisAssessment exampleStore))
        ''appointment:'' = []
   \<and> kv_get (snd (assessmentHandler exampleAssessmentEnv exampleCrisisAssessment exampleStore))
        (riskAnalyticsKey ''2026-11-02'') = None
   \<and> kv_get (snd (assessmentHandler exampleAssessmentEnv exampleCrisisAssessment exampleStore))
        ''user:c-1'' = kv_get exampleStore ''user:c-1''
   \<and> kv_get (snd (chatHandler exampleChatEnv exampleHighRequest exampleStore)) (appointmentKey ''ap-1'')
      \<noteq> None"
proof -
  note frame = assessment_writes_no_appointment
    [of exampleAssessmentEnv exampleCrisisAssessment exampleStore]
  have auth: "asmtAuthUser exampleAssessmentEnv = Some ''student-1''"
    by (simp add: exampleAssessmentEnv_def)
  have tier: "map_sum id asmt_riskLevel
        (fst (assessmentHandler exampleAssessmentEnv exampleCrisisAssessment exampleStore))
      = Inr ''crisis''"
    by (simp add: assessmentHandler_scored [OF auth, of _ "''Severe Depression''" "''crisis''"]
        exampleCrisisAssessment_def scoreAssessment_PHQ9 scorePHQ9_def)
  have none: "kv_getByPrefix exampleStore ''appointment:'' = []"
    by (simp add: kv_getByPrefix_def exampleStore_def)
  have profile: "''user:c-1'' \<noteq> assessmentKey ''student-1'' (asmtUuid exampleAssessmentEnv)
      \<and> ''user:c-1'' \<noteq> assessmentAnalyticsKey (dateOf (asmtAnalytics exampleAssessmentEnv))"
    by (simp add: assessmentKey_def assessmentAnalyticsKey_def)
  have chat: "authUser exampleChatEnv = Some ''s-1''
      \<and> (req_riskLevel exampleHighRequest = Some ''high''
          \<or> req_riskLevel exampleHighRequest = Some ''crisis'')
      \<and> counsellorProfiles exampleStore \<noteq> []
      \<and> appointmentUuid exampleChatEnv = ''ap-1''"
    using example_pool by (auto simp: exampleChatEnv_def exampleHighRequest_def)
  have books: "\<forall>cenv creq userId.
         authUser cenv = Some userId
         \<and> (req_riskLevel creq = Some ''high'' \<or> req_riskLevel creq = Some ''crisis'')
         \<and> counsellorProfiles exampleStore \<noteq> []
         \<longrightarrow> (\<exists>a. kv_get (snd (chatHandler cenv creq exampleStore))
                   (appointmentKey (appointmentUuid cenv)) = Some (Appointment a)
               \<and> appt_status a = ''auto-scheduled'')"
    using frame by (elim conjE)
  have "\<exists>a. kv_get (snd (chatHandler exampleChatEnv exampleHighRequest exampleStore))
      (appointmentKey (appointmentUuid exampleChatEnv)) = Some (Appointment a)
      \<and> appt_status a = ''auto-scheduled''"
    using books [rule_format, of exampleChatEnv "''s-1''" exampleHighRequest] chat by blast
  then have booked: "kv_get (snd (chatHandler exampleChatEnv exampleHighRequest exampleStore))
      (appointmentKey ''ap-1'') \<noteq> None"
    using chat by auto
  show ?thesis
    using frame auth tier none profile booked exampleStore_no_risk by simp
qed

lemma assessment_keys_differ:
  "assessmentAnalyticsKey date \<noteq> assessmentKey userId aid"
proof -
  have "\<not> startsWith (assessmentAnalyticsKey date) ''assessment:''"
    by (simp add: assessmentAnalyticsKey_def)
  then show ?thesis
    by (rule not_prefix_neq) (rule key_prefixes)
qed

text \<open>
  An assessment of an unknown type is stored with an empty result and the tier low. Its
  count of the day goes up by one when the type is not the name of a member of
  \<open>Object.prototype\<close> and the counter holds no text under it.
\<close>

lemma assessment_unknown_type:
  assumes auth: "asmtAuthUser env = Some userId"
    and type: "req_type req \<noteq> ''PHQ-9''" "req_type req \<noteq> ''GAD-7''"
  shows "fst (assessmentHandler env req store) =
     Inr \<lparr> asmt_id = asmtUuid env, asmt_userId = userId, asmt_type = req_type req,
           asmt_scores = req_scores req, asmt_responses = req_responses req,
           asmt_result = [], asmt_riskLevel = ''low'',
           asmt_timestamp = toISOString (asmtTimestamp env) \<rparr>"
    and "kv_get (snd (assessmentHandler env req store)) (assessmentKey userId (asmtUuid env)) =
     Some (Assessment \<lparr> asmt_id = asmtUuid env, asmt_userId = userId, asmt_type = req_type req,
           asmt_scores = req_scores req, asmt_responses = req_responses req,
           asmt_result = [], asmt_riskLevel = ''low'',
           asmt_timestamp = toISOString (asmtTimestamp env) \<rparr>)"
    and "req_type req \<notin> set objectPrototypeNames \<Longrightarrow>
     \<forall>obj s. kv_get store (assessmentAnalyticsKey (dateOf (asmtAnalytics env))) = Some (Analytics obj)
        \<longrightarrow> map_of obj (req_type req) \<noteq> Some (JStr s) \<Longrightarrow>
     assessmentCount (snd (assessmentHandler env req store)) (dateOf (asmtAnalytics env)) (req_type req)
       = assessmentCount store (dateOf (asmtAnalytics env)) (req_type req) + 1"
proof -
  have scored: "scoreAssessment (req_type req) (req_scores req) = Inr ([], ''low'')"
    using type by (rule scoreAssessment_other)
  show "fst (assessmentHandler env req store) =
     Inr \<lparr> asmt_id = asmtUuid env, asmt_userId = userId, asmt_type = req_type req,
           asmt_scores = req_scores req, asmt_responses = req_responses req,
           asmt_result = [], asmt_riskLevel = ''low'',
           asmt_timestamp = toISOString (asmtTimestamp env) \<rparr>"
    by (rule assessmentHandler_scored [OF auth scored])
  let ?a = "\<lparr> asmt_id = asmtUuid env, asmt_userId = userId, asmt_type = req_type req,
           asmt_scores = req_scores req, asmt_responses = req_responses req,
           asmt_result = [], asmt_riskLevel = ''low'',
           asmt_timestamp = toISOString (asmtTimestamp env) \<rparr>"
  let ?s1 = "kv_set store (assessmentKey userId (asmtUuid env)) (Assessment ?a)"
  have final: "snd (assessmentHandler env req store)
      = incrementAssessment (asmtProtoAccessor env) (asmtAnalytics env) (req_type req) ?s1"
    using auth scored by (simp add: assessmentHandler_def Let_def)
  show "kv_get (snd (assessmentHandler env req store)) (assessmentKey userId (asmtUuid env))
      = Some (Assessment ?a)"
    unfolding final incrementAssessment_def Let_def
    using assessment_keys_differ [of "dateOf (asmtAnalytics env)" userId "asmtUuid env"]
    by (simp add: kv_get_kv_set)
  assume plain: "req_type req \<notin> set objectPrototypeNames"
    and number: "\<forall>obj s. kv_get store (assessmentAnalyticsKey (dateOf (asmtAnalytics env)))
        = Some (Analytics obj) \<longrightarrow> map_of obj (req_type req) \<noteq> Some (JStr s)"
  have proto: "req_type req \<noteq> ''__proto__''"
    using plain by (auto simp: objectPrototypeNames_def)
  have before: "kv_get ?s1 (assessmentAnalyticsKey (dateOf (asmtAnalytics env)))
      = kv_get store (assessmentAnalyticsKey (dateOf (asmtAnalytics env)))"
    using assessment_keys_differ [of "dateOf (asmtAnalytics env)" userId "asmtUuid env"]
    by (simp add: kv_get_kv_set)
  define obj where "obj = (case kv_get store (assessmentAnalyticsKey (dateOf (asmtAnalytics env))) of
      Some (Analytics obj) \<Rightarrow> obj | _ \<Rightarrow> [])"
  have after: "kv_get (snd (assessmentHandler env req store))
        (assessmentAnalyticsKey (dateOf (asmtAnalytics env)))
      = Some (Analytics (incrementProperty (asmtProtoAccessor env) obj (req_type req)))"
    unfolding final incrementAssessment_def Let_def obj_def before
    by (simp add: kv_get_kv_set)
  have no_text: "map_of obj (req_type req) \<noteq> Some (JStr s)" for s
    using number by (auto simp: obj_def split: option.splits kvValue.splits)
  have count_before: "assessmentCount store (dateOf (asmtAnalytics env)) (req_type req)
      = (case map_of obj (req_type req) of Some (JNum n) \<Rightarrow> n | _ \<Rightarrow> 0)"
    by (auto simp: assessmentCount_def obj_def split: option.splits kvValue.splits)
  have "(case map_of (incrementProperty (asmtProtoAccessor env) obj (req_type req)) (req_type req) of
        Some (JNum n) \<Rightarrow> n | _ \<Rightarrow> 0)
      = (case map_of obj (req_type req) of Some (JNum n) \<Rightarrow> n | _ \<Rightarrow> 0) + 1"
    using plain proto no_text
    by (auto simp: incrementProperty_def update_conv' split: option.splits jsval.splits)
  then show "assessmentCount (snd (assessmentHandler env req store)) (dateOf (asmtAnalytics env))
        (req_type req)
      = assessmentCount store (dateOf (asmtAnalytics env)) (req_type req) + 1"
    by (simp add: assessmentCount_def [of "snd (assessmentHandler env req store)"] after
        count_before)
qed

lemma example_timestamp: "toISOString 1793588400123 = ''2026-11-02T03:00:00.123Z''"
proof -
  have "isoDate (utcDay 1793588400123) = ''2026-11-02''"
    by code_simp
  moreover have "isoTime 1793588400123 = ''03:00:00.123''"
    by (simp add: isoTime_def msPerDay_def padStart_def natToString.simps digitChar_def Let_def)
  ultimately show ?thesis
    by (simp add: toISOString_def)
qed

text \<open>
  Claim C9 holds for the stored record, and for the counter as long as the type is an
  ordinary name (lemma \<open>assessment_unknown_type\<close>). It fails for the counter when the
  type is the name of a member of \<open>Object.prototype\<close>: for the type \<open>constructor\<close>, on
  a day without a counter record, the read \<open>existingAnalytics[type]\<close> is the built-in
  function \<open>Object\<close>, so what the handler stores under the type is a text and not the
  count 1, and the count of the day for that type still reads 0.
\<close>

theorem assessment_counter_inherited_name:
  "snd (assessmentHandler exampleAssessmentEnv exampleInheritedName [])
     = [(''assessment:student-1:a-1'',
          Assessment \<lparr> asmt_id = ''a-1'', asmt_userId = ''student-1'', asmt_type = ''constructor'',
            asmt_scores = Some [], asmt_responses = Some [], asmt_result = [],
            asmt_riskLevel = ''low'', asmt_timestamp = ''2026-11-02T03:00:00.123Z'' \<rparr>),
        (''analytics:assessment:2026-11-02'',
          Analytics [(''constructor'', JStr ''function Object() { [native code] }1'')])]
   \<and> assessmentCount [] ''2026-11-02'' ''constructor'' = 0
   \<and> assessmentCount (snd (assessmentHandler exampleAssessmentEnv exampleInheritedName []))
        ''2026-11-02'' ''constructor'' = 0"
proof -
  have store: "snd (assessmentHandler exampleAssessmentEnv exampleInheritedName [])
     = [(''assessment:student-1:a-1'',
          Assessment \<lparr> asmt_id = ''a-1'', asmt_userId = ''student-1'', asmt_type = ''constructor'',
            asmt_scores = Some [], asmt_responses = Some [], asmt_result = [],
            asmt_riskLevel = ''low'', asmt_timestamp = ''2026-11-02T03:00:00.123Z'' \<rparr>),
        (''analytics:assessment:2026-11-02'',
          Analytics [(''constructor'', JStr ''function Object() { [native code] }1'')])]"
    by (simp add: assessmentHandler_def exampleAssessmentEnv_def exampleInheritedName_def
        scoreAssessment_def incrementAssessment_def kv_get_def kv_set_def
        incrementProperty_def objectPrototypeNames_def nativeFunctionText_def
        assessmentKey_def assessmentAnalyticsKey_def example_dates example_timestamp Let_def)
  show ?thesis
    unfolding store by (simp add: assessmentCount_def kv_get_def assessmentAnalyticsKey_def)
qed

section \<open>The scorer on submissions of any length and range\<close>

lemma assessmentHandler_stores:
  assumes auth: "asmtAuthUser env = Some userId"
    and scored: "scoreAssessment (req_type req) (req_scores req) = Inr (label, tier)"
  shows "kv_get (snd (assessmentHandler env req store)) (assessmentKey userId (asmtUuid env)) =
     Some (Assessment \<lparr> asmt_id = asmtUuid env, asmt_userId = userId, asmt_type = req_type req,
           asmt_scores = req_scores req, asmt_responses = req_responses req,
           asmt_result = label, asmt_riskLevel = tier,
           asmt_timestamp = toISOString (asmtTimestamp env) \<rparr>)"
proof -
  let ?a = "\<lparr> asmt_id = asmtUuid env, asmt_userId = userId, asmt_type = req_type req,
           asmt_scores = req_scores req, asmt_responses = req_responses req,
           asmt_result = label, asmt_riskLevel = tier,
           asmt_timestamp = toISOString (asmtTimestamp env) \<rparr>"
  have final: "snd (assessmentHandler env req store)
      = incrementAssessment (asmtProtoAccessor env) (asmtAnalytics env) (req_type req)
          (kv_set store (assessmentKey userId (asmtUuid env)) (Assessment ?a))"
    using auth scored by (simp add: assessmentHandler_def Let_def)
  show ?thesis
    unfolding final incrementAssessment_def Let_def
    using assessment_keys_differ [of "dateOf (asmtAnalytics env)" userId "asmtUuid env"]
    by (simp add: kv_get_kv_set)
qed

lemma reduceSum_defined: "\<exists>t. reduceSum (Some xs) = Inr t"
  by (simp add: reduceSum_def)

lemma scoreAssessment_at_total:
  assumes "reduceSum (Some xs) = Inr t"
  shows "scoreAssessment ''PHQ-9'' (Some xs) = Inr (scorePHQ9 t)"
    and "scoreAssessment ''GAD-7'' (Some xs) = Inr (scoreGAD7 t)"
  using assms by (simp_all add: scoreAssessment_def)

text \<open>
  Claim C1 as amended: the scorer validates neither the number of the items nor their
  range. For every PHQ-9 or GAD-7 submission by an authenticated user that carries an
  array of integer scores, of any length, each an integer that a number holds exactly
  (at most \<open>2 ^ 53\<close> in absolute value), the handler does not fail: it stores, under the
  key of the assessment, the assessment that it returns, with the scores of the
  submission, and the label and the tier of that assessment are those of the
  instrument's table at the total, the sum of the scores as the handler adds them in
  double precision; the first row reaches down to every total below 5 and the last row
  up to every total above its lower bound. The total is the exact sum of the scores
  whenever their absolute values add up to at most \<open>2 ^ 53\<close>.
\<close>

theorem scorer_accepts_any_items:
  assumes "asmtAuthUser env = Some userId"
    and "req_type req = ''PHQ-9'' \<or> req_type req = ''GAD-7''"
    and "req_scores req = Some items"
    and "\<forall>x\<in>set items. \<bar>x\<bar> \<le> 2 ^ 53"
  shows "case fst (assessmentHandler env req store) of
           Inl err \<Rightarrow> False
         | Inr a \<Rightarrow>
             kv_get (snd (assessmentHandler env req store)) (assessmentKey userId (asmtUuid env))
               = Some (Assessment a)
             \<and> asmt_userId a = userId \<and> asmt_type a = req_type req
             \<and> asmt_scores a = Some items
             \<and> (case reduceSum (req_scores req) of
                  Inl err \<Rightarrow> False
                | Inr t \<Rightarrow>
                    (let label = asmt_result a; tier = asmt_riskLevel a in
                     (sum_list (map abs items) \<le> 2 ^ 53 \<longrightarrow> t = sum_list items)
                     \<and> (req_type req = ''PHQ-9'' \<longrightarrow>
                          (t \<le> 4 \<longrightarrow> label = ''Minimal Depression'' \<and> tier = ''low'')
                        \<and> (5 \<le> t \<and> t \<le> 9 \<longrightarrow> label = ''Mild Depression'' \<and> tier = ''low'')
                        \<and> (10 \<le> t \<and> t \<le> 14 \<longrightarrow>
                              label = ''Moderate Depression'' \<and> tier = ''moderate'')
                        \<and> (15 \<le> t \<and> t \<le> 19 \<longrightarrow>
                              label = ''Moderately Severe Depression'' \<and> tier = ''high'')
                        \<and> (20 \<le> t \<longrightarrow> label = ''Severe Depression'' \<and> tier = ''crisis''))
                     \<and> (req_type req = ''GAD-7'' \<longrightarrow>
                          (t \<le> 4 \<longrightarrow> label = ''Minimal Anxiety'' \<and> tier = ''low'')
                        \<and> (5 \<le> t \<and> t \<le> 9 \<longrightarrow> label = ''Mild Anxiety'' \<and> tier = ''low'')
                        \<and> (10 \<le> t \<and> t \<le> 14 \<longrightarrow>
                              label = ''Moderate Anxiety'' \<and> tier = ''moderate'')
                        \<and> (15 \<le> t \<longrightarrow> label = ''Severe Anxiety'' \<and> tier = ''high''))))"
proof -
  obtain t where total: "reduceSum (Some items) = Inr t"
    using reduceSum_defined by blast
  have exact: "sum_list (map abs items) \<le> 2 ^ 53 \<longrightarrow> t = sum_list items"
    using total by (auto simp: reduceSum_Some)
  consider (phq) "req_type req = ''PHQ-9''" | (gad) "req_type req = ''GAD-7''"
    using assms(2) by blast
  then show ?thesis
  proof cases
    case phq
    have scored: "scoreAssessment (req_type req) (req_scores req)
        = Inr (fst (scorePHQ9 t), snd (scorePHQ9 t))"
      by (simp add: phq assms(3) scoreAssessment_at_total(1) [OF total])
    show ?thesis
      using exact
      by (simp add: assessmentHandler_scored [OF assms(1) scored]
          assessmentHandler_stores [OF assms(1) scored] assms(3) total scorePHQ9_def Let_def phq)
  next
    case gad
    have scored: "scoreAssessment (req_type req) (req_scores req)
        = Inr (fst (scoreGAD7 t), snd (scoreGAD7 t))"
      by (simp add: gad assms(3) scoreAssessment_at_total(2) [OF total])
    show ?thesis
      using exact
      by (simp add: assessmentHandler_scored [OF assms(1) scored]
          assessmentHandler_stores [OF assms(1) scored] assms(3) total scoreGAD7_def Let_def gad)
  qed
qed

lemma addNumbers_exact: "\<bar>a + b\<bar> \<le> 2 ^ 53 \<Longrightarrow> addNumbers a b = a + b"
  by (simp add: addNumbers_def numberOfInt_exact)

lemma large_step: "addNumbers 9007199254740992 1 = 9007199254740992"
  by code_simp

lemma example_large_total:
  "reduceSum (Some exampleLargeScores) = Inr 0"
  "sum_list exampleLargeScores = 10"
  "list_all (\<lambda>x. \<bar>x\<bar> \<le> 2 ^ 53) exampleLargeScores"
  by (simp_all add: reduceSum_def exampleLargeScores_def numberOfInt_exact addNumbers_exact
      large_step)

text \<open>
  Eleven items, one of them 7 and one negative, submitted as PHQ-9: total 33, stored as
  Severe Depression, crisis. Twelve items that add up to 10, the first and the last of
  them \<open>2 ^ 53\<close> and its negative: the ten additions of 1 to \<open>2 ^ 53\<close> are lost in double
  precision, the total is 0, and the submission is stored as Minimal Depression, low.
\<close>

theorem scorer_accepts_any_items_witness:
  "asmtAuthUser exampleAssessmentEnv = Some ''student-1''
   \<and> list_all (\<lambda>x. \<bar>x\<bar> \<le> 2 ^ 53) [3, 7, - 1, 3, 3, 3, 3, 3, 3, 3, 3 :: int]
   \<and> (case assessmentHandler exampleAssessmentEnv
          \<lparr> req_type = ''PHQ-9'', req_scores = Some [3, 7, - 1, 3, 3, 3, 3, 3, 3, 3, 3],
            req_responses = None \<rparr> [] of
        (Inr a, stored) \<Rightarrow>
          kv_get stored (assessmentKey ''student-1'' ''a-1'') = Some (Assessment a)
          \<and> asmt_result a = ''Severe Depression'' \<and> asmt_riskLevel a = ''crisis''
      | (Inl err, stored) \<Rightarrow> False)
   \<and> list_all (\<lambda>x. \<bar>x\<bar> \<le> 2 ^ 53) exampleLargeScores
   \<and> sum_list exampleLargeScores = 10
   \<and> (case assessmentHandler exampleAssessmentEnv
          \<lparr> req_type = ''PHQ-9'', req_scores = Some exampleLargeScores, req_responses = None \<rparr> [] of
        (Inr a, stored) \<Rightarrow>
          kv_get stored (assessmentKey ''student-1'' ''a-1'') = Some (Assessment a)
          \<and> asmt_result a = ''Minimal Depression'' \<and> asmt_riskLevel a = ''low''
      | (Inl err, stored) \<Rightarrow> False)"
proof -
  let ?small = "\<lparr> req_type = ''PHQ-9'', req_scores = Some [3, 7, - 1, 3, 3, 3, 3, 3, 3, 3, 3],
      req_responses = None \<rparr>"
  let ?large = "\<lparr> req_type = ''PHQ-9'', req_scores = Some exampleLargeScores,
      req_responses = None \<rparr>"
  have auth: "asmtAuthUser exampleAssessmentEnv = Some ''student-1''"
    and uuid: "asmtUuid exampleAssessmentEnv = ''a-1''"
    by (simp_all add: exampleAssessmentEnv_def)
  have small_total: "reduceSum (Some [3, 7, - 1, 3, 3, 3, 3, 3, 3, 3, 3]) = Inr 33"
    by (simp add: reduceSum_Some)
  have in_range: "\<forall>x\<in>set exampleLargeScores. \<bar>x\<bar> \<le> 2 ^ 53"
    using example_large_total(3) by (simp add: list_all_iff)
  have small: "case fst (assessmentHandler exampleAssessmentEnv ?small []) of
      Inl err \<Rightarrow> False
    | Inr a \<Rightarrow>
        kv_get (snd (assessmentHandler exampleAssessmentEnv ?small []))
          (assessmentKey ''student-1'' ''a-1'') = Some (Assessment a)
        \<and> asmt_result a = ''Severe Depression'' \<and> asmt_riskLevel a = ''crisis''"
    using scorer_accepts_any_items [of exampleAssessmentEnv "''student-1''" ?small
        "[3, 7, - 1, 3, 3, 3, 3, 3, 3, 3, 3]" "[]"] auth
    by (auto simp: uuid small_total Let_def split: sum.splits)
  have large: "case fst (assessmentHandler exampleAssessmentEnv ?large []) of
      Inl err \<Rightarrow> False
    | Inr a \<Rightarrow>
        kv_get (snd (assessmentHandler exampleAssessmentEnv ?large []))
          (assessmentKey ''student-1'' ''a-1'') = Some (Assessment a)
        \<and> asmt_result a = ''Minimal Depression'' \<and> asmt_riskLevel a = ''low''"
    using scorer_accepts_any_items [of exampleAssessmentEnv "''student-1''" ?large
        exampleLargeScores "[]"] auth in_range
    by (auto simp: uuid example_large_total(1) Let_def split: sum.splits)
  have small': "case assessmentHandler exampleAssessmentEnv ?small [] of
        (Inr a, stored) \<Rightarrow>
          kv_get stored (assessmentKey ''student-1'' ''a-1'') = Some (Assessment a)
          \<and> asmt_result a = ''Severe Depression'' \<and> asmt_riskLevel a = ''crisis''
      | (Inl err, stored) \<Rightarrow> False"
    using small by (cases "assessmentHandler exampleAssessmentEnv ?small []")
      (auto split: sum.splits)
  have large': "case assessmentHandler exampleAssessmentEnv ?large [] of
        (Inr a, stored) \<Rightarrow>
          kv_get stored (assessmentKey ''student-1'' ''a-1'') = Some (Assessment a)
          \<and> asmt_result a = ''Minimal Depression'' \<and> asmt_riskLevel a = ''low''
      | (Inl err, stored) \<Rightarrow> False"
    using large by (cases "assessmentHandler exampleAssessmentEnv ?large []")
      (auto split: sum.splits)
  have bounds: "list_all (\<lambda>x. \<bar>x\<bar> \<le> 2 ^ 53) [3, 7, - 1, 3, 3, 3, 3, 3, 3, 3, 3 :: int]"
    by simp
  show ?thesis
    using auth bounds small' example_large_total(3) example_large_total(2) large'
    by (intro conjI)
qed

section \<open>Properties of the crisis rate\<close>

lemma foldl_plus_field: "foldl (\<lambda>sum day. sum + f day) a days = a + sum_list (map f days)"
  for a :: nat
  by (induction days arbitrary: a) simp_all

lemma processRiskData_crisis_le_total: "\<forall>day\<in>set (processRiskData ra). Crisis day \<le> Total day"
proof (cases ra)
  case None
  then show ?thesis by (simp add: processRiskData_def)
next
  case (Some items)
  have "set (sliceLast7 xs) \<subseteq> set xs" for xs :: "riskDay list"
    unfolding sliceLast7_def by (rule set_drop_subset)
  then show ?thesis
    using Some by (fastforce simp: processRiskData_def)
qed

lemma getOverallStats_sums:
  "totalInteractions (getOverallStats ra) = sum_list (map Total (processRiskData ra))"
  "crisisCases (getOverallStats ra) = sum_list (map Crisis (processRiskData ra))"
  "highRiskCases (getOverallStats ra) = sum_list (map High (processRiskData ra))"
  by (simp_all add: getOverallStats_def Let_def foldl_plus_field)

lemma quarter_percent: "toFixed1 (mulDouble (divDouble 1 4) 100) = ''25.0''"
  by code_simp

lemma example_stats:
  "totalInteractions (getOverallStats (Some [exampleRiskItem])) = 4"
  "crisisCases (getOverallStats (Some [exampleRiskItem])) = 1"
  by (simp_all add: getOverallStats_sums processRiskData_def sliceLast7_def orZero_def
      exampleRiskItem_def)

lemma getOverallStats_crisisRate:
  "crisisRate (getOverallStats ra) =
     (if 0 < totalInteractions (getOverallStats ra)
      then toFixed1 (mulDouble
        (divDouble (crisisCases (getOverallStats ra)) (totalInteractions (getOverallStats ra))) 100)
      else ''0'')"
  by (simp add: getOverallStats_def Let_def)

lemma example_crisisRate: "crisisRate (getOverallStats (Some [exampleRiskItem])) = ''25.0''"
proof -
  have "crisisRate (getOverallStats (Some [exampleRiskItem]))
      = (if (0::nat) < 4 then toFixed1 (mulDouble (divDouble 1 4) 100) else ''0'')"
    by (simp only: getOverallStats_crisisRate example_stats)
  also have "\<dots> = toFixed1 (mulDouble (divDouble 1 4) 100)"
    by (simp only: zero_less_numeral if_True)
  finally show ?thesis
    by (simp only: quarter_percent)
qed

text \<open>
  Claim C7 says that the crisis rate is the quotient of the crisis total by the grand
  total, 0.25 for the counts low 3 and crisis 1. The dashboard multiplies the quotient by
  100 and prints it with one decimal: for these counts the rate is the text \<open>25.0\<close>.
\<close>

theorem crisisRate_fraction_counterexample:
  "crisisCases (getOverallStats (Some [exampleRiskItem])) = 1
   \<and> totalInteractions (getOverallStats (Some [exampleRiskItem])) = 4
   \<and> crisisRate (getOverallStats (Some [exampleRiskItem])) = ''25.0''
   \<and> crisisRate (getOverallStats (Some [exampleRiskItem])) \<noteq> ''0.25''"
proof -
  have "''25.0'' \<noteq> ''0.25''"
    by simp
  then show ?thesis
    using example_stats by (simp only: example_crisisRate) simp
qed

text \<open>
  Claim C7 as amended: the crisis rate is a text. It is \<open>0\<close> when the grand total of the
  last seven days is 0, and no division is made; otherwise it is the percentage
  \<open>(crisisCases / totalInteractions) * 100\<close>, computed in double precision and printed by
  \<open>toFixed(1)\<close>, where the crisis total never exceeds the grand total. One crisis
  message out of four gives \<open>25.0\<close>.
\<close>

theorem crisisRate_percentage:
  "(totalInteractions (getOverallStats ra) = 0 \<longrightarrow> crisisRate (getOverallStats ra) = ''0'')
   \<and> (0 < totalInteractions (getOverallStats ra) \<longrightarrow>
        crisisRate (getOverallStats ra)
        = toFixed1 (mulDouble
            (divDouble (crisisCases (getOverallStats ra)) (totalInteractions (getOverallStats ra)))
            100))
   \<and> totalInteractions (getOverallStats ra) = sum_list (map Total (processRiskData ra))
   \<and> crisisCases (getOverallStats ra) = sum_list (map Crisis (processRiskData ra))
   \<and> crisisCases (getOverallStats ra) \<le> totalInteractions (getOverallStats ra)
   \<and> toFixed1 (mulDouble (divDouble 1 4) 100) = ''25.0''"
proof -
  have zero: "totalInteractions (getOverallStats ra) = 0 \<longrightarrow> crisisRate (getOverallStats ra) = ''0''"
    by (simp add: getOverallStats_crisisRate)
  have positive: "0 < totalInteractions (getOverallStats ra) \<longrightarrow>
        crisisRate (getOverallStats ra)
        = toFixed1 (mulDouble
            (divDouble (crisisCases (getOverallStats ra)) (totalInteractions (getOverallStats ra)))
            100)"
    by (simp add: getOverallStats_crisisRate)
  have "sum_list (map Crisis (processRiskData ra)) \<le> sum_list (map Total (processRiskData ra))"
    using processRiskData_crisis_le_total [of ra] by (intro sum_list_mono) auto
  then have le: "crisisCases (getOverallStats ra) \<le> totalInteractions (getOverallStats ra)"
    by (simp only: getOverallStats_sums)
  show ?thesis
    using zero positive getOverallStats_sums(1) [of ra] getOverallStats_sums(2) [of ra] le
      quarter_percent
    by (intro conjI)
qed

text \<open>
  No day at all gives the rate \<open>0\<close>; the day with the counts low 3 and crisis 1 gives
  \<open>25.0\<close>.
\<close>

theorem crisisRate_percentage_witness:
  "totalInteractions (getOverallStats (Some [])) = 0
   \<and> crisisRate (getOverallStats (Some [])) = ''0''
   \<and> 0 < totalInteractions (getOverallStats (Some [exampleRiskItem]))
   \<and> crisisRate (getOverallStats (Some [exampleRiskItem])) = ''25.0''"
proof -
  have zero: "totalInteractions (getOverallStats (Some [])) = 0"
    by (simp add: getOverallStats_sums processRiskData_def sliceLast7_def)
  have rate0: "crisisRate (getOverallStats (Some [])) = ''0''"
    using crisisRate_percentage [of "Some []"] zero by blast
  have positive: "0 < totalInteractions (getOverallStats (Some [exampleRiskItem]))"
    by (simp only: example_stats zero_less_numeral)
  have "crisisRate (getOverallStats (Some [exampleRiskItem]))
      = toFixed1 (mulDouble
          (divDouble (crisisCases (getOverallStats (Some [exampleRiskItem])))
             (totalInteractions (getOverallStats (Some [exampleRiskItem])))) 100)"
    using crisisRate_percentage [of "Some [exampleRiskItem]"] positive by blast
  then have rate: "crisisRate (getOverallStats (Some [exampleRiskItem])) = ''25.0''"
    by (simp only: example_stats quarter_percent)
  show ?thesis
    using zero rate0 positive rate by (intro conjI)
qed

end
